theory Spec2Isabelle
  imports Complex_Main
begin

section \<open>JavaScript values used by the timer\<close>

text \<open>
  The extension computes with JavaScript numbers. Every number it stores is an integer:
  \<^verbatim>\<open>GLib.get_real_time()\<close> is a count of microseconds, the three conversion
  constants are integers and the fields of a \<^verbatim>\<open>Time\<close> are written from
  \<^verbatim>\<open>Math.floor\<close> or \<^verbatim>\<open>Math.round\<close>. They are modelled as \<open>int\<close>; the
  quotients formed on the way (\<^verbatim>\<open>mcsLeft / SECOND_TO_MS % 60\<close>) are modelled as exact
  rationals. Rounding of the 64-bit floating point quotient is not modelled, and the
  integers are those that a JavaScript number holds exactly, the ones below \<open>2 ^ 53\<close> in
  absolute value, which covers every reading of the clock in microseconds.

  A field that holds \<^verbatim>\<open>null\<close> or a number is an \<open>int option\<close>; in arithmetic
  JavaScript reads \<^verbatim>\<open>null\<close> as 0.
\<close>

definition ToNumber :: "int option \<Rightarrow> int" where
  "ToNumber v = (case v of None \<Rightarrow> 0 | Some n \<Rightarrow> n)"

text \<open>The operator \<^verbatim>\<open>/\<close> on two integral numbers.\<close>

definition js_div :: "int \<Rightarrow> int \<Rightarrow> rat" where
  "js_div a b = of_int a / of_int b"

text \<open>
  The operator \<^verbatim>\<open>%\<close>: the remainder of the division truncated towards zero, so
  the result has the sign of the dividend.
\<close>

definition js_trunc :: "rat \<Rightarrow> int" where
  "js_trunc x = (if 0 \<le> x then \<lfloor>x\<rfloor> else - \<lfloor>- x\<rfloor>)"

definition js_rem :: "rat \<Rightarrow> rat \<Rightarrow> rat" where
  "js_rem a b = a - b * of_int (js_trunc (a / b))"

definition Math_floor :: "rat \<Rightarrow> int" where
  "Math_floor x = \<lfloor>x\<rfloor>"

text \<open>\<^verbatim>\<open>Math.round\<close> rounds half-way cases up.\<close>

definition Math_round :: "rat \<Rightarrow> int" where
  "Math_round x = \<lfloor>x + 1 / 2\<rfloor>"

text \<open>\<^verbatim>\<open>String(n)\<close> for an integral number, and \<^verbatim>\<open>padStart\<close> with a one-character pad.\<close>

fun digits :: "nat \<Rightarrow> string" where
  "digits n =
     (if n < 10 then [''0123456789'' ! n]
      else digits (n div 10) @ [''0123456789'' ! (n mod 10)])"

definition js_String :: "int \<Rightarrow> string" where
  "js_String n = (if n < 0 then CHR ''-'' # digits (nat (- n)) else digits (nat n))"

definition padStart :: "string \<Rightarrow> nat \<Rightarrow> char \<Rightarrow> string" where
  "padStart s n c = replicate (n - length s) c @ s"

section \<open>class Time\<close>

record Time =
  hours :: int
  minutes :: int
  seconds :: int

definition getFormatted :: "Time \<Rightarrow> string" where
  "getFormatted t =
     padStart (js_String (hours t)) 2 (CHR ''0'')
     @ '':'' @ padStart (js_String (minutes t)) 2 (CHR ''0'')
     @ '':'' @ padStart (js_String (seconds t)) 2 (CHR ''0'')"

section \<open>class Timer\<close>

text \<open>
  A \<^verbatim>\<open>Time\<close> is a mutable object and two places hold one: the popup's
  \<^verbatim>\<open>options.time\<close> and the timer's \<^verbatim>\<open>this.time\<close>. Time objects therefore live
  in a store, addressed by references; \<open>fresh\<close> is the next unused address, which
  \<^verbatim>\<open>new Time(...)\<close> takes. The timer itself is one object per world.
\<close>

type_synonym ref = nat

datatype State = STATE_PLAY | STATE_PAUSE | STATE_STOP

record Timer =
  mcsLeft :: "int option"
  pauseTimestamp :: "int option"
  finishTimestamp :: "int option"
  time :: ref
  state :: State

record world =
  objs :: "ref \<Rightarrow> Time"
  fresh :: ref
  timer :: Timer

definition SECOND_TO_MS :: int where
  "SECOND_TO_MS = 1000000"

definition MINUTE_TO_MS :: int where
  "MINUTE_TO_MS = 1000000 * 60"

definition HOUR_TO_MS :: int where
  "HOUR_TO_MS = 1000000 * 60 * 60"

text \<open>\<^verbatim>\<open>new Time(h, m, s)\<close>: the object is written at the next unused address.\<close>

definition new_Time :: "int \<Rightarrow> int \<Rightarrow> int \<Rightarrow> 'a world_scheme \<Rightarrow> ref \<times> 'a world_scheme" where
  "new_Time h m s w =
     (fresh w,
      w\<lparr>objs := (objs w)(fresh w := \<lparr>hours = h, minutes = m, seconds = s\<rparr>),
        fresh := Suc (fresh w)\<rparr>)"

text \<open>\<^verbatim>\<open>this.time\<close> read, and an assignment to one of its fields.\<close>

definition this_time :: "'a world_scheme \<Rightarrow> Time" where
  "this_time w = objs w (time (timer w))"

definition assign_time :: "(Time \<Rightarrow> Time) \<Rightarrow> 'a world_scheme \<Rightarrow> 'a world_scheme" where
  "assign_time f w = w\<lparr>objs := (objs w)(time (timer w) := f (objs w (time (timer w))))\<rparr>"

text \<open>\<^verbatim>\<open>setTime(time)\<close>: the argument is a reference, the timer keeps a new object.\<close>

definition setTime :: "ref \<Rightarrow> 'a world_scheme \<Rightarrow> 'a world_scheme" where
  "setTime tr w =
     (case new_Time (hours (objs w tr)) (minutes (objs w tr)) (seconds (objs w tr)) w of
        (r, w') \<Rightarrow> w'\<lparr>timer := (timer w')\<lparr>time := r\<rparr>\<rparr>)"

text \<open>
  The constructor of \<^verbatim>\<open>extension.js\<close>. It sets every field, so the timer that the
  world held before does not matter.
\<close>

definition Timer_constructor :: "ref \<Rightarrow> 'a world_scheme \<Rightarrow> 'a world_scheme" where
  "Timer_constructor tr w =
     (let w1 = w\<lparr>timer := (timer w)\<lparr>mcsLeft := None, pauseTimestamp := None,
                                     finishTimestamp := None\<rparr>\<rparr>;
          w2 = setTime tr w1
      in w2\<lparr>timer := (timer w2)\<lparr>state := STATE_STOP\<rparr>\<rparr>)"

definition isPaused :: "'a world_scheme \<Rightarrow> bool" where
  "isPaused w = (state (timer w) = STATE_PAUSE)"

definition isPlaying :: "'a world_scheme \<Rightarrow> bool" where
  "isPlaying w = (state (timer w) = STATE_PLAY)"

definition isStopped :: "'a world_scheme \<Rightarrow> bool" where
  "isStopped w = (state (timer w) = STATE_STOP)"

definition stop :: "'a world_scheme \<Rightarrow> 'a world_scheme" where
  "stop w =
     (let w1 = assign_time (\<lambda>t. t\<lparr>seconds := 0\<rparr>) w;
          w2 = assign_time (\<lambda>t. t\<lparr>minutes := 0\<rparr>) w1;
          w3 = assign_time (\<lambda>t. t\<lparr>hours := 0\<rparr>) w2
      in w3\<lparr>timer := (timer w3)\<lparr>state := STATE_STOP\<rparr>\<rparr>)"

text \<open>
  \<^verbatim>\<open>update()\<close>; \<open>now\<close> is what \<^verbatim>\<open>GLib.get_real_time()\<close> returns in it. After
  \<^verbatim>\<open>this.stop()\<close> the method goes on: the three assignments are not in an
  \<^verbatim>\<open>else\<close> branch.
\<close>

definition update :: "int \<Rightarrow> 'a world_scheme \<Rightarrow> 'a world_scheme" where
  "update now w =
     (if isPaused w then w
      else
        let w1 = w\<lparr>timer := (timer w)\<lparr>mcsLeft :=
                     Some (ToNumber (finishTimestamp (timer w)) - now)\<rparr>\<rparr>;
            w2 = (if ToNumber (mcsLeft (timer w1)) \<le> 0 then stop w1 else w1);
            w3 = assign_time (\<lambda>t. t\<lparr>seconds :=
                   Math_floor (js_rem (js_div (ToNumber (mcsLeft (timer w2))) SECOND_TO_MS) 60)\<rparr>) w2;
            w4 = assign_time (\<lambda>t. t\<lparr>minutes :=
                   Math_floor (js_rem (js_div (ToNumber (mcsLeft (timer w3))) MINUTE_TO_MS) 60)\<rparr>) w3
        in assign_time (\<lambda>t. t\<lparr>hours :=
                   Math_floor (js_div (ToNumber (mcsLeft (timer w4))) HOUR_TO_MS)\<rparr>) w4)"

text \<open>
  \<^verbatim>\<open>start()\<close> reads the clock itself (\<open>now\<close>) and then calls \<^verbatim>\<open>update()\<close>, which
  reads it again (\<open>now'\<close>).
\<close>

definition start :: "int \<Rightarrow> int \<Rightarrow> 'a world_scheme \<Rightarrow> 'a world_scheme" where
  "start now now' w =
     (let w1 = w\<lparr>timer := (timer w)\<lparr>finishTimestamp := Some
                  (now
                   + SECOND_TO_MS * seconds (this_time w)
                   + MINUTE_TO_MS * minutes (this_time w)
                   + HOUR_TO_MS * hours (this_time w))\<rparr>\<rparr>;
          w2 = w1\<lparr>timer := (timer w1)\<lparr>state := STATE_PLAY\<rparr>\<rparr>
      in update now' w2)"

definition pause :: "int \<Rightarrow> 'a world_scheme \<Rightarrow> 'a world_scheme" where
  "pause now w =
     (let w1 = w\<lparr>timer := (timer w)\<lparr>pauseTimestamp := Some now\<rparr>\<rparr>
      in w1\<lparr>timer := (timer w1)\<lparr>state := STATE_PAUSE\<rparr>\<rparr>)"

definition resume :: "int \<Rightarrow> 'a world_scheme \<Rightarrow> 'a world_scheme" where
  "resume now w =
     (let w1 = w\<lparr>timer := (timer w)\<lparr>finishTimestamp := Some
                  (ToNumber (finishTimestamp (timer w))
                   + (now - ToNumber (pauseTimestamp (timer w))))\<rparr>\<rparr>;
          w2 = w1\<lparr>timer := (timer w1)\<lparr>pauseTimestamp := None\<rparr>\<rparr>
      in w2\<lparr>timer := (timer w2)\<lparr>state := STATE_PLAY\<rparr>\<rparr>)"

section \<open>Sequences of timer operations\<close>

text \<open>
  The timer is changed only through its methods. \<open>timer_op\<close> names one call, with the
  clock readings it makes; \<open>run\<close> performs a sequence of calls, and \<open>updates\<close> keeps the
  world after each of a sequence of \<^verbatim>\<open>update()\<close> calls.
\<close>

datatype timer_op =
    OpSetTime ref
  | OpStart int int
  | OpPause int
  | OpResume int
  | OpStop
  | OpUpdate int

fun apply_op :: "timer_op \<Rightarrow> 'a world_scheme \<Rightarrow> 'a world_scheme" where
  "apply_op (OpSetTime tr) w = setTime tr w"
| "apply_op (OpStart now now') w = start now now' w"
| "apply_op (OpPause now) w = pause now w"
| "apply_op (OpResume now) w = resume now w"
| "apply_op OpStop w = stop w"
| "apply_op (OpUpdate now) w = update now w"

fun run :: "timer_op list \<Rightarrow> 'a world_scheme \<Rightarrow> 'a world_scheme" where
  "run [] w = w"
| "run (x # xs) w = run xs (apply_op x w)"

fun updates :: "int list \<Rightarrow> 'a world_scheme \<Rightarrow> 'a world_scheme list" where
  "updates [] w = []"
| "updates (now # nows) w = update now w # updates nows (update now w)"

text \<open>How often a sequence of states, entered from \<open>s\<close>, goes from another state to Stopped.\<close>

fun stop_transitions :: "State \<Rightarrow> State list \<Rightarrow> nat" where
  "stop_transitions s [] = 0"
| "stop_transitions s (s' # ss) =
     (if s \<noteq> STATE_STOP \<and> s' = STATE_STOP then 1 else 0) + stop_transitions s' ss"

text \<open>The remaining time the timer last computed, and what a \<^verbatim>\<open>Time\<close> shows, in seconds.\<close>

definition remaining :: "'a world_scheme \<Rightarrow> int" where
  "remaining w = ToNumber (mcsLeft (timer w))"

definition total_seconds :: "Time \<Rightarrow> int" where
  "total_seconds t = hours t * 3600 + minutes t * 60 + seconds t"

section \<open>class TimerPopup\<close>

text \<open>
  The popup of \<^verbatim>\<open>unnamed/part_001\<close>, the latest of the three files. Of the widgets it
  keeps the texts they show. \<open>calls\<close> records, in order, the calls the popup makes to the
  timer, to \<^verbatim>\<open>Mainloop\<close> and to \<^verbatim>\<open>Main.notify\<close>; \<open>next_source\<close> is the identifier
  that \<^verbatim>\<open>Mainloop.timeout_add\<close> returns next. \<^verbatim>\<open>this.timeout\<close> is undefined (\<open>None\<close>)
  until the first \<^verbatim>\<open>timeout_add\<close>.
\<close>

datatype event =
    CallSetTime
  | CallStart
  | CallPause
  | CallResume
  | CallStop
  | CallUpdate
  | TimeoutAdd nat nat
  | SourceRemove "nat option"
  | Notify string

record popup = world +
  options_time :: ref
  timeout :: "nat option"
  next_source :: nat
  panelLabel :: string
  panelIcon :: string
  playLabel :: string
  calls :: "event list"

definition MAX_HOURS :: int where
  "MAX_HOURS = 10"

fun playStateLabelMap :: "State \<Rightarrow> string" where
  "playStateLabelMap STATE_PLAY = ''Pause''"
| "playStateLabelMap STATE_PAUSE = ''Resume''"
| "playStateLabelMap STATE_STOP = ''Start''"

fun playStateIconMap :: "State \<Rightarrow> string" where
  "playStateIconMap STATE_PLAY = ''media-playback-start-symbolic''"
| "playStateIconMap STATE_PAUSE = ''media-playback-pause-symbolic''"
| "playStateIconMap STATE_STOP = ''media-playback-stop-symbolic''"

definition log_call :: "event \<Rightarrow> popup \<Rightarrow> popup" where
  "log_call e p = p\<lparr>calls := calls p @ [e]\<rparr>"

text \<open>The argument is \<open>None\<close> when the caller passes none; an empty string is falsy too.\<close>

definition updatePanelLabel :: "string option \<Rightarrow> popup \<Rightarrow> popup" where
  "updatePanelLabel panelLabelText p =
     (let p1 =
        (case panelLabelText of
           Some (c # cs) \<Rightarrow> p\<lparr>panelLabel := c # cs\<rparr>
         | _ \<Rightarrow>
             if isStopped p then p\<lparr>panelLabel := getFormatted (objs p (options_time p))\<rparr>
             else p\<lparr>panelLabel := getFormatted (this_time p)\<rparr>)
      in p1\<lparr>panelIcon := playStateIconMap (state (timer p1))\<rparr>)"

text \<open>
  The three sliders' values are the arguments \<open>sh\<close>, \<open>sm\<close>, \<open>ss\<close>. A slider's value
  is a floating point number between 0 and 1, and the product that \<^verbatim>\<open>Math.round\<close> is
  applied to is rounded to a floating point number first. That rounding is the argument
  \<open>fl\<close>: it is left open, and is the identity where the product is a floating point
  number itself.
\<close>

definition handleTimeInput :: "(rat \<Rightarrow> rat) \<Rightarrow> rat \<Rightarrow> rat \<Rightarrow> rat \<Rightarrow> popup \<Rightarrow> popup" where
  "handleTimeInput fl sh sm ss p =
     (let a = options_time p;
          p1 = p\<lparr>objs := (objs p)(a := (objs p a)\<lparr>hours :=
                 Math_round (fl (of_int MAX_HOURS * sh))\<rparr>)\<rparr>;
          p2 = p1\<lparr>objs := (objs p1)(a := (objs p1 a)\<lparr>minutes :=
                 Math_round (fl (60 * sm))\<rparr>)\<rparr>;
          p3 = p2\<lparr>objs := (objs p2)(a := (objs p2 a)\<lparr>seconds :=
                 Math_round (fl (60 * ss))\<rparr>)\<rparr>
      in updatePanelLabel None p3)"

definition stopDisplayingTime :: "popup \<Rightarrow> popup" where
  "stopDisplayingTime p = log_call (SourceRemove (timeout p)) p"

definition stopTimer :: "string option \<Rightarrow> popup \<Rightarrow> popup" where
  "stopTimer panelLabelText p =
     (let p1 = stopDisplayingTime p;
          p2 = stop (log_call CallStop p1);
          p3 = updatePanelLabel panelLabelText p2
      in p3\<lparr>playLabel := playStateLabelMap STATE_STOP\<rparr>)"

text \<open>The result is what the callback returns to the main loop: \<open>False\<close> ends the repetition.\<close>

definition updateTimer :: "int \<Rightarrow> popup \<Rightarrow> bool \<times> popup" where
  "updateTimer now p =
     (let p1 = update now (log_call CallUpdate p)
      in if isStopped p1
         then (False, log_call (Notify ''Done!'') (stopTimer (Some ''Done!'') p1))
         else (True, updatePanelLabel None p1))"

definition startDisplayingTime :: "int \<Rightarrow> popup \<Rightarrow> popup" where
  "startDisplayingTime now p =
     (let p1 = snd (updateTimer now p);
          p2 = log_call (TimeoutAdd 500 (next_source p1)) p1
      in p2\<lparr>timeout := Some (next_source p1), next_source := Suc (next_source p1)\<rparr>)"

definition startTimer :: "int \<Rightarrow> int \<Rightarrow> int \<Rightarrow> popup \<Rightarrow> popup" where
  "startTimer now now' now'' p =
     (let p1 = setTime (options_time p) (log_call CallSetTime p);
          p2 = start now now' (log_call CallStart p1)
      in startDisplayingTime now'' p2)"

text \<open>
  A click reads the clock once when it pauses or resumes (\<open>now\<close>) and three times when it
  starts the timer.
\<close>

definition handlePlayClick :: "int \<Rightarrow> int \<Rightarrow> int \<Rightarrow> popup \<Rightarrow> popup" where
  "handlePlayClick now now' now'' p =
     (let p1 =
        (if isStopped p then startTimer now now' now'' p
         else if isPlaying p then pause now (log_call CallPause p)
         else if isPaused p then resume now (log_call CallResume p)
         else p)
      in p1\<lparr>playLabel := playStateLabelMap (state (timer p1))\<rparr>)"

text \<open>
  \<^verbatim>\<open>handlePlayClick\<close> as \<^verbatim>\<open>extension.js\<close> has it, with the start of the timer and of
  the refresh loop written in place.
\<close>

definition handlePlayClick_ext :: "int \<Rightarrow> int \<Rightarrow> int \<Rightarrow> popup \<Rightarrow> popup" where
  "handlePlayClick_ext now now' now'' p =
     (let p1 =
        (if isStopped p then
           (let q1 = setTime (options_time p) (log_call CallSetTime p);
                q2 = start now now' (log_call CallStart q1);
                q3 = snd (updateTimer now'' q2);
                q4 = log_call (TimeoutAdd 500 (next_source q3)) q3
            in q4\<lparr>timeout := Some (next_source q3), next_source := Suc (next_source q3)\<rparr>)
         else if isPlaying p then pause now (log_call CallPause p)
         else if isPaused p then resume now (log_call CallResume p)
         else p)
      in p1\<lparr>playLabel := playStateLabelMap (state (timer p1))\<rparr>)"

text \<open>
  \<^verbatim>\<open>_init()\<close> of \<^verbatim>\<open>extension.js\<close>, on the store \<open>boot\<close> that holds no object yet:
  \<^verbatim>\<open>options.time = new Time(0, 40, 0)\<close>, then \<^verbatim>\<open>new Timer(this.options.time)\<close>, then
  the label, the icon and the menu item.
\<close>

definition boot :: popup where
  "boot =
     \<lparr>objs = (\<lambda>_. \<lparr>hours = 0, minutes = 0, seconds = 0\<rparr>), fresh = 0,
      timer = \<lparr>mcsLeft = None, pauseTimestamp = None, finishTimestamp = None,
               time = 0, state = STATE_STOP\<rparr>,
      options_time = 0, timeout = None, next_source = 1,
      panelLabel = [], panelIcon = [], playLabel = [], calls = []\<rparr>"

definition TimerPopup_init :: "popup \<Rightarrow> popup" where
  "TimerPopup_init p =
     (case new_Time 0 40 0 p of
        (a, p1) \<Rightarrow>
          (let p2 = Timer_constructor a (p1\<lparr>options_time := a\<rparr>);
               p3 = p2\<lparr>panelLabel := getFormatted (objs p2 (options_time p2))\<rparr>;
               p4 = p3\<lparr>panelIcon := playStateIconMap (state (timer p3))\<rparr>
           in p4\<lparr>playLabel := ''Start''\<rparr>))"

section \<open>The first version of the timer\<close>

text \<open>
  \<^verbatim>\<open>unnamed/part_000\<close> has an earlier \<^verbatim>\<open>Timer\<close>: the deadline is set by the
  constructor, the timer is paused when \<^verbatim>\<open>pauseTimestamp\<close> is not \<^verbatim>\<open>null\<close>, the three
  units are fields of the timer (undefined until the first update that computes them),
  and \<^verbatim>\<open>update()\<close> returns a value: \<^verbatim>\<open>this.mcsLeft\<close>, or \<^verbatim>\<open>false\<close> at the end.
\<close>

datatype js_value = JNumber int | JNull | JFalse

record Timer0 =
  mcsLeft0 :: "int option"
  pauseTimestamp0 :: "int option"
  finishTimestamp0 :: int
  seconds0 :: "int option"
  minutes0 :: "int option"
  hours0 :: "int option"

definition Timer0_constructor :: "int \<Rightarrow> int \<Rightarrow> int \<Rightarrow> int \<Rightarrow> Timer0" where
  "Timer0_constructor now h m s =
     \<lparr>mcsLeft0 = None, pauseTimestamp0 = None,
      finishTimestamp0 = now + SECOND_TO_MS * s + MINUTE_TO_MS * m + HOUR_TO_MS * h,
      seconds0 = None, minutes0 = None, hours0 = None\<rparr>"

definition js_number_or_null :: "int option \<Rightarrow> js_value" where
  "js_number_or_null v = (case v of None \<Rightarrow> JNull | Some n \<Rightarrow> JNumber n)"

definition isFinished0 :: "Timer0 \<Rightarrow> bool" where
  "isFinished0 t = (ToNumber (mcsLeft0 t) \<le> 0)"

definition isPaused0 :: "Timer0 \<Rightarrow> bool" where
  "isPaused0 t = (pauseTimestamp0 t \<noteq> None)"

definition update0 :: "int \<Rightarrow> Timer0 \<Rightarrow> js_value \<times> Timer0" where
  "update0 now t =
     (if isPaused0 t then (js_number_or_null (mcsLeft0 t), t)
      else
        let t1 = t\<lparr>mcsLeft0 := Some (finishTimestamp0 t - now)\<rparr>
        in if isFinished0 t1 then (JFalse, t1)
           else
             let t2 = t1\<lparr>seconds0 := Some
                        (Math_floor (js_rem (js_div (ToNumber (mcsLeft0 t1)) SECOND_TO_MS) 60))\<rparr>;
                 t3 = t2\<lparr>minutes0 := Some
                        (Math_floor (js_rem (js_div (ToNumber (mcsLeft0 t2)) MINUTE_TO_MS) 60))\<rparr>;
                 t4 = t3\<lparr>hours0 := Some
                        (Math_floor (js_div (ToNumber (mcsLeft0 t3)) HOUR_TO_MS))\<rparr>
             in (js_number_or_null (mcsLeft0 t4), t4))"

definition pause0 :: "int \<Rightarrow> Timer0 \<Rightarrow> Timer0" where
  "pause0 now t = t\<lparr>pauseTimestamp0 := Some now\<rparr>"

definition resume0 :: "int \<Rightarrow> Timer0 \<Rightarrow> Timer0" where
  "resume0 now t =
     (let t1 = t\<lparr>finishTimestamp0 := finishTimestamp0 t + (now - ToNumber (pauseTimestamp0 t))\<rparr>
      in t1\<lparr>pauseTimestamp0 := None\<rparr>)"

section \<open>The units of a remaining time, in integer arithmetic\<close>

text \<open>
  What \<^verbatim>\<open>Math.floor(mcsLeft / d % 60)\<close> comes to for an integer \<open>m\<close> and a positive
  integer \<open>d\<close>: the two cases of the sign of \<open>m\<close> differ because \<^verbatim>\<open>%\<close> truncates
  towards zero. \<open>floor_rem\<close> below proves it equal to the expression of the source.
\<close>

definition unit_of :: "int \<Rightarrow> int \<Rightarrow> int" where
  "unit_of m d = (if 0 \<le> m then (m div d) mod 60 else m div d + 60 * ((- m) div (d * 60)))"

text \<open>
  The relation between the state and the two timestamps that the operations keep: a
  Paused timer has a \<^verbatim>\<open>pauseTimestamp\<close>, a Playing timer has a \<^verbatim>\<open>finishTimestamp\<close>.
\<close>

definition timestamps_ok :: "'a world_scheme \<Rightarrow> bool" where
  "timestamps_ok w =
     ((state (timer w) = STATE_PAUSE \<longrightarrow> pauseTimestamp (timer w) \<noteq> None)
      \<and> (state (timer w) = STATE_PLAY \<longrightarrow> finishTimestamp (timer w) \<noteq> None))"

section \<open>Facts about the operations\<close>

lemma Math_floor_js_div: "Math_floor (js_div m d) = m div d"
  by (simp add: Math_floor_def js_div_def floor_divide_of_int_eq)

lemma js_trunc_js_div:
  assumes "0 < d"
  shows "js_trunc (js_div m d / 60) = (if 0 \<le> m then m div (d * 60) else - ((- m) div (d * 60)))"
proof -
  have q: "js_div m d / 60 = of_int m / of_int (d * 60)"
    by (simp add: js_div_def)
  have n: "- (rat_of_int m / of_int (d * 60)) = of_int (- m) / of_int (d * 60)"
    by simp
  have s: "(0 \<le> rat_of_int m / of_int (d * 60)) = (0 \<le> m)"
    using assms by (simp add: zero_le_divide_iff)
  show ?thesis
    unfolding js_trunc_def q s n by (simp only: floor_divide_of_int_eq)
qed

lemma floor_rem:
  assumes "0 < d"
  shows "Math_floor (js_rem (js_div m d) 60) = unit_of m d"
proof -
  have r: "js_rem (js_div m d) 60 = of_int m / of_int d - of_int (60 * js_trunc (js_div m d / 60))"
    by (simp add: js_rem_def) (simp add: js_div_def)
  have f: "Math_floor (js_rem (js_div m d) 60) = m div d - 60 * js_trunc (js_div m d / 60)"
    unfolding Math_floor_def r by (simp only: floor_diff_of_int floor_divide_of_int_eq)
  show ?thesis
  proof (cases "0 \<le> m")
    case True
    have "m div (d * 60) = (m div d) div 60"
      by (simp add: zdiv_zmult2_eq)
    then show ?thesis
      using True assms by (simp add: f js_trunc_js_div minus_mult_div_eq_mod unit_of_def)
  next
    case False
    then show ?thesis
      using assms by (simp add: f js_trunc_js_div unit_of_def)
  qed
qed

lemma timer_update:
  "timer (update now w) =
     (if state (timer w) = STATE_PAUSE then timer w
      else (timer w)\<lparr>mcsLeft := Some (ToNumber (finishTimestamp (timer w)) - now),
                     state := (if ToNumber (finishTimestamp (timer w)) - now \<le> 0
                               then STATE_STOP else state (timer w))\<rparr>)"
  by (simp add: update_def isPaused_def stop_def assign_time_def Let_def ToNumber_def)

lemma this_time_update:
  "state (timer w) \<noteq> STATE_PAUSE \<Longrightarrow>
   this_time (update now w) =
     \<lparr>hours = (ToNumber (finishTimestamp (timer w)) - now) div HOUR_TO_MS,
      minutes = unit_of (ToNumber (finishTimestamp (timer w)) - now) MINUTE_TO_MS,
      seconds = unit_of (ToNumber (finishTimestamp (timer w)) - now) SECOND_TO_MS\<rparr>"
  by (simp add: update_def isPaused_def stop_def assign_time_def Let_def ToNumber_def
      this_time_def Math_floor_js_div floor_rem SECOND_TO_MS_def MINUTE_TO_MS_def)

lemma objs_update_other:
  "a \<noteq> time (timer w) \<Longrightarrow> objs (update now w) a = objs w a"
  by (simp add: update_def isPaused_def stop_def assign_time_def Let_def)

lemma update_paused: "state (timer w) = STATE_PAUSE \<Longrightarrow> update now w = w"
  by (simp add: update_def isPaused_def)

lemma timer_stop: "timer (stop w) = (timer w)\<lparr>state := STATE_STOP\<rparr>"
  by (simp add: stop_def assign_time_def Let_def)

lemma this_time_stop: "this_time (stop w) = \<lparr>hours = 0, minutes = 0, seconds = 0\<rparr>"
  by (simp add: stop_def assign_time_def Let_def this_time_def)

lemma timer_pause:
  "timer (pause now w) = (timer w)\<lparr>pauseTimestamp := Some now, state := STATE_PAUSE\<rparr>"
  by (simp add: pause_def Let_def)

lemma this_time_pause: "this_time (pause now w) = this_time w"
  by (simp add: pause_def Let_def this_time_def)

lemma timer_resume:
  "timer (resume now w) =
     (timer w)\<lparr>finishTimestamp := Some (ToNumber (finishTimestamp (timer w))
                                         + (now - ToNumber (pauseTimestamp (timer w)))),
               pauseTimestamp := None, state := STATE_PLAY\<rparr>"
  by (simp add: resume_def Let_def)

lemma this_time_resume: "this_time (resume now w) = this_time w"
  by (simp add: resume_def Let_def this_time_def)

lemma timer_setTime: "timer (setTime tr w) = (timer w)\<lparr>time := fresh w\<rparr>"
  by (simp add: setTime_def new_Time_def)

lemma this_time_setTime: "this_time (setTime tr w) = objs w tr"
  by (simp add: setTime_def new_Time_def this_time_def)

lemma timer_start:
  "timer (start now now' w) =
     (timer w)\<lparr>finishTimestamp := Some (now + SECOND_TO_MS * seconds (this_time w)
                                         + MINUTE_TO_MS * minutes (this_time w)
                                         + HOUR_TO_MS * hours (this_time w)),
               mcsLeft := Some (now + SECOND_TO_MS * seconds (this_time w)
                                 + MINUTE_TO_MS * minutes (this_time w)
                                 + HOUR_TO_MS * hours (this_time w) - now'),
               state := (if now + SECOND_TO_MS * seconds (this_time w)
                                 + MINUTE_TO_MS * minutes (this_time w)
                                 + HOUR_TO_MS * hours (this_time w) - now' \<le> 0
                         then STATE_STOP else STATE_PLAY)\<rparr>"
  by (simp add: start_def Let_def timer_update ToNumber_def)

lemma this_time_start:
  "this_time (start now now' w) =
     \<lparr>hours = (now + SECOND_TO_MS * seconds (this_time w)
                                 + MINUTE_TO_MS * minutes (this_time w)
                                 + HOUR_TO_MS * hours (this_time w) - now') div HOUR_TO_MS,
      minutes = unit_of (now + SECOND_TO_MS * seconds (this_time w)
                                 + MINUTE_TO_MS * minutes (this_time w)
                                 + HOUR_TO_MS * hours (this_time w) - now') MINUTE_TO_MS,
      seconds = unit_of (now + SECOND_TO_MS * seconds (this_time w)
                                 + MINUTE_TO_MS * minutes (this_time w)
                                 + HOUR_TO_MS * hours (this_time w) - now') SECOND_TO_MS\<rparr>"
  by (simp add: start_def Let_def this_time_update ToNumber_def)

lemma unit_of_nonneg: "0 \<le> m \<Longrightarrow> unit_of m d = (m div d) mod 60"
  by (simp add: unit_of_def)

lemma recompose: "(q::int) div 3600 * 3600 + q div 60 mod 60 * 60 + q mod 60 = q"
proof -
  have c: "q div 3600 = q div 60 div 60"
    using zdiv_zmult2_eq [of 60 q 60] by simp
  have e1: "q = 60 * (q div 60) + q mod 60"
    by simp
  have e2: "q div 60 = 60 * (q div 60 div 60) + q div 60 mod 60"
    by simp
  show ?thesis
    unfolding c using e1 e2 by linarith
qed

lemma total_seconds_units:
  assumes "0 \<le> m"
  shows "total_seconds \<lparr>hours = m div HOUR_TO_MS, minutes = unit_of m MINUTE_TO_MS,
                         seconds = unit_of m SECOND_TO_MS\<rparr> = m div SECOND_TO_MS"
proof -
  have a: "m div MINUTE_TO_MS = m div SECOND_TO_MS div 60"
    unfolding MINUTE_TO_MS_def SECOND_TO_MS_def by (rule zdiv_zmult2_eq) simp
  have "m div (1000000 * 3600) = m div 1000000 div 3600"
    by (rule zdiv_zmult2_eq) simp
  then have b: "m div HOUR_TO_MS = m div SECOND_TO_MS div 3600"
    unfolding HOUR_TO_MS_def SECOND_TO_MS_def by simp
  show ?thesis
    unfolding total_seconds_def unit_of_nonneg [OF assms] a b
    by (simp only: Time.simps recompose)
qed

lemma finish_update:
  "finishTimestamp (timer (update now w)) = finishTimestamp (timer w)"
  by (simp add: timer_update)

lemma state_update:
  "state (timer w) \<noteq> STATE_PAUSE \<Longrightarrow>
   state (timer (update now w)) =
     (if ToNumber (finishTimestamp (timer w)) - now \<le> 0 then STATE_STOP else state (timer w))"
  by (simp add: timer_update)

lemma remaining_update:
  "state (timer w) \<noteq> STATE_PAUSE \<Longrightarrow>
   remaining (update now w) = ToNumber (finishTimestamp (timer w)) - now"
  by (simp add: remaining_def timer_update ToNumber_def)

lemma remaining_updates:
  "state (timer w) \<noteq> STATE_PAUSE \<Longrightarrow>
   map remaining (updates nows w) = map (\<lambda>n. ToNumber (finishTimestamp (timer w)) - n) nows"
proof (induction nows arbitrary: w)
  case Nil
  then show ?case by simp
next
  case (Cons n nows)
  have "state (timer (update n w)) \<noteq> STATE_PAUSE"
    using Cons.prems by (simp add: state_update)
  from Cons.IH [OF this] show ?case
    using Cons.prems by (simp add: remaining_update finish_update)
qed

lemma updates_sorted:
  assumes "sorted nows" "state (timer w) \<noteq> STATE_PAUSE"
  shows "sorted_wrt (\<lambda>a b. remaining b \<le> remaining a) (updates nows w)"
proof -
  have "sorted_wrt (\<lambda>x y. y \<le> x) (map remaining (updates nows w))"
    using assms(1) by (simp add: remaining_updates [OF assms(2)] sorted_wrt_map)
  then show ?thesis by (simp add: sorted_wrt_map)
qed

lemma states_updates:
  assumes "sorted nows"
    and "state (timer w) = STATE_PLAY
         \<or> (state (timer w) = STATE_STOP \<and> (\<forall>n \<in> set nows. ToNumber (finishTimestamp (timer w)) \<le> n))"
  shows "list_all (\<lambda>v. state (timer v) = (if remaining v \<le> 0 then STATE_STOP else STATE_PLAY))
           (updates nows w)"
  using assms
proof (induction nows arbitrary: w)
  case Nil
  then show ?case by simp
next
  case (Cons n nows)
  have np: "state (timer w) \<noteq> STATE_PAUSE"
    using Cons.prems(2) by auto
  have hd: "state (timer (update n w)) = (if remaining (update n w) \<le> 0 then STATE_STOP else STATE_PLAY)"
    using Cons.prems(2) by (auto simp: state_update [OF np] remaining_update [OF np])
  have srt: "sorted nows" and le: "\<forall>n' \<in> set nows. n \<le> n'"
    using Cons.prems(1) by simp_all
  have "state (timer (update n w)) = STATE_PLAY
         \<or> (state (timer (update n w)) = STATE_STOP
            \<and> (\<forall>n' \<in> set nows. ToNumber (finishTimestamp (timer (update n w))) \<le> n'))"
    using Cons.prems(2) le by (auto simp: state_update [OF np] finish_update)
  from Cons.IH [OF srt this] hd show ?case by simp
qed

lemma stop_transitions_stopped:
  "list_all (\<lambda>s. s = STATE_STOP) ss \<Longrightarrow> stop_transitions STATE_STOP ss = 0"
  by (induction ss) auto

lemma stop_transitions_updates:
  assumes "sorted nows" "state (timer w) = STATE_PLAY"
  shows "stop_transitions STATE_PLAY (map (\<lambda>v. state (timer v)) (updates nows w))
         = (if \<exists>n \<in> set nows. ToNumber (finishTimestamp (timer w)) \<le> n then 1 else 0)"
  using assms
proof (induction nows arbitrary: w)
  case Nil
  then show ?case by simp
next
  case (Cons n nows)
  have np: "state (timer w) \<noteq> STATE_PAUSE"
    using Cons.prems(2) by simp
  have srt: "sorted nows" and le: "\<forall>n' \<in> set nows. n \<le> n'"
    using Cons.prems(1) by simp_all
  show ?case
  proof (cases "ToNumber (finishTimestamp (timer w)) \<le> n")
    case True
    then have st: "state (timer (update n w)) = STATE_STOP"
      by (simp add: state_update [OF np])
    have "\<forall>n' \<in> set nows. ToNumber (finishTimestamp (timer (update n w))) \<le> n'"
      using True le by (auto simp: finish_update)
    with st have "list_all (\<lambda>v. state (timer v) = (if remaining v \<le> 0 then STATE_STOP else STATE_PLAY))
           (updates nows (update n w))"
      using states_updates [OF srt, of "update n w"] by simp
    moreover have "list_all (\<lambda>v. remaining v \<le> 0) (updates nows (update n w))"
    proof -
      have "state (timer (update n w)) \<noteq> STATE_PAUSE" using st by simp
      from remaining_updates [OF this, of nows]
      have "map remaining (updates nows (update n w))
            = map (\<lambda>n'. ToNumber (finishTimestamp (timer w)) - n') nows"
        by (simp add: finish_update)
      moreover have "list_all (\<lambda>x. x \<le> 0) (map (\<lambda>n'. ToNumber (finishTimestamp (timer w)) - n') nows)"
        using True le by (auto simp: list_all_iff)
      ultimately have "list_all (\<lambda>x. x \<le> 0) (map remaining (updates nows (update n w)))"
        by simp
      then show ?thesis by (simp add: list_all_iff)
    qed
    ultimately have "list_all (\<lambda>s. s = STATE_STOP)
        (map (\<lambda>v. state (timer v)) (updates nows (update n w)))"
      by (auto simp: list_all_iff)
    from stop_transitions_stopped [OF this] show ?thesis
      using True st by simp
  next
    case False
    then have st: "state (timer (update n w)) = STATE_PLAY"
      using Cons.prems(2) by (simp add: state_update [OF np])
    from Cons.IH [OF srt st] show ?thesis
      using False st by (simp add: finish_update)
  qed
qed

lemma this_time_updates:
  "state (timer w) \<noteq> STATE_PAUSE \<Longrightarrow>
   list_all (\<lambda>v. this_time v = \<lparr>hours = remaining v div HOUR_TO_MS,
                                  minutes = unit_of (remaining v) MINUTE_TO_MS,
                                  seconds = unit_of (remaining v) SECOND_TO_MS\<rparr>) (updates nows w)"
proof (induction nows arbitrary: w)
  case Nil
  then show ?case by simp
next
  case (Cons n nows)
  have "state (timer (update n w)) \<noteq> STATE_PAUSE"
    using Cons.prems by (simp add: state_update)
  from Cons.IH [OF this] show ?case
    using Cons.prems by (simp add: remaining_update this_time_update)
qed

lemma updates_paused:
  "state (timer w) = STATE_PAUSE \<Longrightarrow> updates nows w = replicate (length nows) w"
  by (induction nows) (simp_all add: update_paused)

lemma ToNumber_Some: "ToNumber (Some n) = n"
  by (simp add: ToNumber_def)

lemma resume_pause_deadline:
  "ToNumber (finishTimestamp (timer (resume (p + d) (pause p w)))) - (p + d + e)
   = ToNumber (finishTimestamp (timer w)) - (p + e)"
  by (simp add: timer_resume timer_pause ToNumber_Some)

lemma popup_fields_update:
  "calls (update now p) = calls p" "timeout (update now p) = timeout p"
  "next_source (update now p) = next_source p" "options_time (update now p) = options_time p"
  "playLabel (update now p) = playLabel p"
  by (simp_all add: update_def isPaused_def stop_def assign_time_def Let_def)

lemma popup_fields_stop:
  "calls (stop p) = calls p" "timeout (stop p) = timeout p"
  "next_source (stop p) = next_source p" "options_time (stop p) = options_time p"
  by (simp_all add: stop_def assign_time_def Let_def)

lemma popup_fields_start:
  "calls (start now now' p) = calls p" "timeout (start now now' p) = timeout p"
  "next_source (start now now' p) = next_source p"
  "options_time (start now now' p) = options_time p"
  by (simp_all add: start_def Let_def popup_fields_update)

lemma popup_fields_setTime:
  "calls (setTime tr p) = calls p" "timeout (setTime tr p) = timeout p"
  "next_source (setTime tr p) = next_source p" "options_time (setTime tr p) = options_time p"
  by (simp_all add: setTime_def new_Time_def)

lemma popup_fields_pause:
  "calls (pause now p) = calls p" "timeout (pause now p) = timeout p"
  "next_source (pause now p) = next_source p" "options_time (pause now p) = options_time p"
  by (simp_all add: pause_def Let_def)

lemma popup_fields_resume:
  "calls (resume now p) = calls p" "timeout (resume now p) = timeout p"
  "next_source (resume now p) = next_source p" "options_time (resume now p) = options_time p"
  by (simp_all add: resume_def Let_def)

lemma log_call_fields:
  "calls (log_call e p) = calls p @ [e]" "timer (log_call e p) = timer p"
  "objs (log_call e p) = objs p" "fresh (log_call e p) = fresh p"
  "timeout (log_call e p) = timeout p" "next_source (log_call e p) = next_source p"
  "options_time (log_call e p) = options_time p" "this_time (log_call e p) = this_time p"
  by (simp_all add: log_call_def this_time_def)

lemma updatePanelLabel_fields:
  "calls (updatePanelLabel txt p) = calls p" "timer (updatePanelLabel txt p) = timer p"
  "objs (updatePanelLabel txt p) = objs p" "fresh (updatePanelLabel txt p) = fresh p"
  "timeout (updatePanelLabel txt p) = timeout p"
  "next_source (updatePanelLabel txt p) = next_source p"
  "options_time (updatePanelLabel txt p) = options_time p"
  "this_time (updatePanelLabel txt p) = this_time p"
  by (simp_all add: updatePanelLabel_def Let_def this_time_def split: option.split list.split)

lemma timer_update_log: "timer (update now (log_call e p)) = timer (update now p)"
  by (simp add: timer_update log_call_fields)

lemma calls_stopTimer:
  "calls (stopTimer txt p) = calls p @ [SourceRemove (timeout p), CallStop]"
  by (simp add: stopTimer_def stopDisplayingTime_def Let_def updatePanelLabel_fields
      popup_fields_stop log_call_fields)

lemma calls_updateTimer:
  "calls (snd (updateTimer now p)) =
     calls p @ [CallUpdate]
     @ (if isStopped (update now p)
        then [SourceRemove (timeout p), CallStop, Notify ''Done!''] else [])"
  by (simp add: updateTimer_def Let_def isStopped_def timer_update_log calls_stopTimer
      log_call_fields updatePanelLabel_fields popup_fields_update)

lemma next_source_updateTimer: "next_source (snd (updateTimer now p)) = next_source p"
  by (simp add: updateTimer_def Let_def stopTimer_def stopDisplayingTime_def
      updatePanelLabel_fields popup_fields_stop popup_fields_update log_call_fields)

lemma update_units_in_range:
  assumes "state (timer w) \<noteq> STATE_PAUSE" "now < ToNumber (finishTimestamp (timer w))"
  shows "0 \<le> hours (this_time (update now w))
    \<and> 0 \<le> minutes (this_time (update now w)) \<and> minutes (this_time (update now w)) \<le> 59
    \<and> 0 \<le> seconds (this_time (update now w)) \<and> seconds (this_time (update now w)) \<le> 59"
proof -
  have m: "0 \<le> ToNumber (finishTimestamp (timer w)) - now"
    using assms(2) by simp
  have h: "0 \<le> (ToNumber (finishTimestamp (timer w)) - now) div HOUR_TO_MS"
    using m by (simp add: HOUR_TO_MS_def pos_imp_zdiv_nonneg_iff)
  have u: "0 \<le> unit_of (ToNumber (finishTimestamp (timer w)) - now) d
           \<and> unit_of (ToNumber (finishTimestamp (timer w)) - now) d \<le> 59" for d
    unfolding unit_of_nonneg [OF m]
    using pos_mod_bound [of 60 "(ToNumber (finishTimestamp (timer w)) - now) div d"]
      pos_mod_sign [of 60 "(ToNumber (finishTimestamp (timer w)) - now) div d"]
    by simp
  show ?thesis
    using h u by (simp add: this_time_update [OF assms(1)])
qed

lemma update_expired_state:
  "state (timer w) \<noteq> STATE_PAUSE \<Longrightarrow> ToNumber (finishTimestamp (timer w)) \<le> now \<Longrightarrow>
   state (timer (update now w)) = STATE_STOP"
  by (simp add: state_update)

lemma this_time_update_log: "this_time (update now (log_call e p)) = this_time (update now p)"
  by (simp add: update_def isPaused_def stop_def assign_time_def Let_def this_time_def
      log_call_def)

lemma timer_stopTimer: "timer (stopTimer txt p) = (timer p)\<lparr>state := STATE_STOP\<rparr>"
  by (simp add: stopTimer_def Let_def updatePanelLabel_fields timer_stop log_call_fields
      stopDisplayingTime_def)

lemma this_time_stopTimer:
  "this_time (stopTimer txt p) = \<lparr>hours = 0, minutes = 0, seconds = 0\<rparr>"
proof -
  have "this_time (stopTimer txt p) = this_time (stop (log_call CallStop (stopDisplayingTime p)))"
    by (simp add: stopTimer_def Let_def this_time_def updatePanelLabel_fields)
  then show ?thesis by (simp add: this_time_stop)
qed

lemma updateTimer_expired:
  assumes "state (timer p) \<noteq> STATE_PAUSE" "ToNumber (finishTimestamp (timer p)) \<le> now"
  shows "fst (updateTimer now p) = False
    \<and> state (timer (snd (updateTimer now p))) = STATE_STOP
    \<and> this_time (snd (updateTimer now p)) = \<lparr>hours = 0, minutes = 0, seconds = 0\<rparr>
    \<and> panelLabel (snd (updateTimer now p)) = ''Done!''
    \<and> calls (snd (updateTimer now p))
        = calls p @ [CallUpdate, SourceRemove (timeout p), CallStop, Notify ''Done!'']"
proof -
  have s: "isStopped (update now (log_call CallUpdate p))"
    using assms by (simp add: isStopped_def timer_update_log state_update)
  have s': "isStopped (update now p)"
    using assms by (simp add: isStopped_def state_update)
  have a: "fst (updateTimer now p) = False"
    using s by (simp add: updateTimer_def Let_def)
  have b: "state (timer (snd (updateTimer now p))) = STATE_STOP"
    using s by (simp add: updateTimer_def Let_def log_call_fields timer_stopTimer)
  have c: "this_time (snd (updateTimer now p)) = \<lparr>hours = 0, minutes = 0, seconds = 0\<rparr>"
    using s by (simp add: updateTimer_def Let_def log_call_fields this_time_stopTimer)
  have d: "panelLabel (snd (updateTimer now p)) = ''Done!''"
    using s by (simp add: updateTimer_def Let_def stopTimer_def log_call_def
        updatePanelLabel_def)
  have e: "calls (snd (updateTimer now p))
        = calls p @ [CallUpdate, SourceRemove (timeout p), CallStop, Notify ''Done!'']"
    using s' by (simp add: calls_updateTimer)
  show ?thesis using a b c d e by simp
qed

lemma calls_startDisplayingTime:
  "calls (startDisplayingTime now p) =
     calls p @ [CallUpdate]
     @ (if isStopped (update now p)
        then [SourceRemove (timeout p), CallStop, Notify ''Done!''] else [])
     @ [TimeoutAdd 500 (next_source p)]"
  by (simp add: startDisplayingTime_def Let_def log_call_fields calls_updateTimer
      next_source_updateTimer)

lemma calls_startTimer:
  "calls (startTimer now now' now'' p) =
     calls p @ [CallSetTime, CallStart, CallUpdate]
     @ (if isStopped (update now'' (start now now'
           (log_call CallStart (setTime (options_time p) (log_call CallSetTime p)))))
        then [SourceRemove (timeout p), CallStop, Notify ''Done!''] else [])
     @ [TimeoutAdd 500 (next_source p)]"
  by (simp add: startTimer_def Let_def calls_startDisplayingTime popup_fields_start
      popup_fields_setTime log_call_fields)

lemma calls_handlePlayClick:
  "calls (handlePlayClick now now' now'' p) =
     (if state (timer p) = STATE_STOP then calls (startTimer now now' now'' p)
      else if state (timer p) = STATE_PLAY then calls p @ [CallPause]
      else calls p @ [CallResume])"
  by (cases "state (timer p)")
    (simp_all add: handlePlayClick_def Let_def isStopped_def isPlaying_def isPaused_def
      popup_fields_pause popup_fields_resume log_call_fields)

lemma timestamps_ok_apply_op: "timestamps_ok w \<Longrightarrow> timestamps_ok (apply_op x w)"
  by (cases x)
    (auto simp: timestamps_ok_def timer_setTime timer_start timer_pause timer_resume timer_stop
      timer_update)

lemma timestamps_ok_run: "timestamps_ok w \<Longrightarrow> timestamps_ok (run xs w)"
  by (induction xs arbitrary: w) (simp_all add: timestamps_ok_apply_op)

lemma timestamps_ok_constructor: "timestamps_ok (Timer_constructor tr w)"
  by (simp add: timestamps_ok_def Timer_constructor_def Let_def)

lemma div_MINUTE_TO_MS: "x div MINUTE_TO_MS = x div SECOND_TO_MS div 60"
  unfolding MINUTE_TO_MS_def SECOND_TO_MS_def by (rule zdiv_zmult2_eq) simp

lemma div_HOUR_TO_MS: "x div HOUR_TO_MS = x div SECOND_TO_MS div 3600"
proof -
  have "x div (1000000 * 3600) = x div 1000000 div 3600"
    by (rule zdiv_zmult2_eq) simp
  then show ?thesis
    unfolding HOUR_TO_MS_def SECOND_TO_MS_def by simp
qed

lemma duration_in_seconds:
  "SECOND_TO_MS * s + MINUTE_TO_MS * m + HOUR_TO_MS * h = (s + 60 * m + 3600 * h) * SECOND_TO_MS"
  by (simp add: SECOND_TO_MS_def MINUTE_TO_MS_def HOUR_TO_MS_def algebra_simps)

lemma seconds_of_duration:
  assumes "0 \<le> m" "m \<le> 59" "0 \<le> s" "s \<le> (59::int)"
  shows "(s + 60 * m + 3600 * h) div 3600 = h"
    and "(s + 60 * m + 3600 * h) div 60 mod 60 = m"
    and "(s + 60 * m + 3600 * h) mod 60 = s"
proof -
  have sm: "0 \<le> s + 60 * m" "s + 60 * m < 3600"
    using assms by linarith+
  have "(s + 60 * m + h * 3600) div 3600 = h + (s + 60 * m) div 3600"
    by (rule div_mult_self1) simp
  moreover have "(s + 60 * m) div 3600 = 0"
    using sm by (rule div_pos_pos_trivial)
  ultimately show "(s + 60 * m + 3600 * h) div 3600 = h"
    by (simp add: mult.commute)
  have s0: "s div 60 = 0" "s mod 60 = s"
    using assms by simp_all
  have m0: "m mod 60 = m"
    using assms by simp
  have r: "s + 60 * m + 3600 * h = s + (m + 60 * h) * 60"
    by simp
  have d: "(s + 60 * m + 3600 * h) div 60 = m + 60 * h"
    unfolding r using div_mult_self1 [of 60 s "m + 60 * h"] s0 by simp
  show "(s + 60 * m + 3600 * h) div 60 mod 60 = m"
    unfolding d using mod_mult_self2 [of m 60 h] m0 by simp
  show "(s + 60 * m + 3600 * h) mod 60 = s"
    unfolding r using mod_mult_self1 [of s "m + 60 * h" 60] s0 by simp
qed

lemma units_of_duration:
  assumes "0 \<le> h" "0 \<le> m" "m \<le> 59" "0 \<le> s" "s \<le> 59"
  shows "(SECOND_TO_MS * s + MINUTE_TO_MS * m + HOUR_TO_MS * h) div HOUR_TO_MS = h"
    and "unit_of (SECOND_TO_MS * s + MINUTE_TO_MS * m + HOUR_TO_MS * h) MINUTE_TO_MS = m"
    and "unit_of (SECOND_TO_MS * s + MINUTE_TO_MS * m + HOUR_TO_MS * h) SECOND_TO_MS = s"
proof -
  let ?T = "SECOND_TO_MS * s + MINUTE_TO_MS * m + HOUR_TO_MS * h"
  have q: "?T div SECOND_TO_MS = s + 60 * m + 3600 * h"
    unfolding duration_in_seconds by (simp add: SECOND_TO_MS_def)
  have "0 \<le> (s + 60 * m + 3600 * h) * SECOND_TO_MS"
    using assms by (simp add: SECOND_TO_MS_def)
  then have nn: "0 \<le> ?T"
    by (simp only: duration_in_seconds)
  show "?T div HOUR_TO_MS = h"
    unfolding div_HOUR_TO_MS q by (rule seconds_of_duration(1) [OF assms(2-5)])
  show "unit_of ?T MINUTE_TO_MS = m"
    unfolding unit_of_nonneg [OF nn] div_MINUTE_TO_MS q
    by (rule seconds_of_duration(2) [OF assms(2-5)])
  show "unit_of ?T SECOND_TO_MS = s"
    unfolding unit_of_nonneg [OF nn] q by (rule seconds_of_duration(3) [OF assms(2-5)])
qed

lemma div_within_tick:
  assumes "0 \<le> d" "d \<le> (500000::int)"
  shows "S - 1 \<le> (S * 1000000 - d) div 1000000" and "(S * 1000000 - d) div 1000000 \<le> S"
proof -
  have "(S - 1) * 1000000 div 1000000 \<le> (S * 1000000 - d) div 1000000"
    by (rule zdiv_mono1) (use assms in \<open>simp_all add: algebra_simps\<close>)
  then show "S - 1 \<le> (S * 1000000 - d) div 1000000"
    by simp
  have "(S * 1000000 - d) div 1000000 \<le> S * 1000000 div 1000000"
    by (rule zdiv_mono1) (use assms in simp_all)
  then show "(S * 1000000 - d) div 1000000 \<le> S"
    by simp
qed

lemma state_start_not_paused: "state (timer (start now now' w)) \<noteq> STATE_PAUSE"
  by (simp add: timer_start)

lemma finish_start:
  "ToNumber (finishTimestamp (timer (start now now' w)))
   = now + SECOND_TO_MS * seconds (this_time w) + MINUTE_TO_MS * minutes (this_time w)
     + HOUR_TO_MS * hours (this_time w)"
  by (simp add: timer_start ToNumber_Some)

lemma time_timer_ops:
  "time (timer (update now w)) = time (timer w)"
  "time (timer (start now now' w)) = time (timer w)"
  "time (timer (pause now w)) = time (timer w)"
  "time (timer (resume now w)) = time (timer w)"
  "time (timer (stop w)) = time (timer w)"
  by (simp_all add: timer_update timer_start timer_pause timer_resume timer_stop)

lemma timer_updateTimer:
  "time (timer (snd (updateTimer now p))) = time (timer p)"
  "options_time (snd (updateTimer now p)) = options_time p"
  by (simp_all add: updateTimer_def Let_def timer_stopTimer log_call_fields
      updatePanelLabel_fields time_timer_ops stopTimer_def stopDisplayingTime_def
      popup_fields_stop popup_fields_update)

lemma startTimer_refs:
  "time (timer (startTimer now now' now'' p)) = fresh p"
  "options_time (startTimer now now' now'' p) = options_time p"
  by (simp_all add: startTimer_def startDisplayingTime_def Let_def log_call_fields
      timer_updateTimer time_timer_ops timer_setTime popup_fields_start popup_fields_setTime)

lemma handleTimeInput_timer: "timer (handleTimeInput fl sh sm ss q) = timer q"
  by (simp add: handleTimeInput_def Let_def updatePanelLabel_fields)

lemma Time_update_all:
  "(t::Time)\<lparr>hours := a, minutes := b, seconds := c\<rparr> = \<lparr>hours = a, minutes = b, seconds = c\<rparr>"
  by (cases t) simp

lemma handleTimeInput_objs:
  "objs (handleTimeInput fl sh sm ss q) =
     (objs q)(options_time q := \<lparr>hours = Math_round (fl (of_int MAX_HOURS * sh)),
                                 minutes = Math_round (fl (60 * sm)),
                                 seconds = Math_round (fl (60 * ss))\<rparr>)"
  by (simp add: handleTimeInput_def Let_def updatePanelLabel_fields Time_update_all)

lemma handleTimeInput_this_time:
  "time (timer q) \<noteq> options_time q \<Longrightarrow> this_time (handleTimeInput fl sh sm ss q) = this_time q"
  by (simp add: this_time_def handleTimeInput_timer handleTimeInput_objs)

lemma update_same_timer:
  assumes "timer q1 = timer q2" "this_time q1 = this_time q2"
  shows "timer (update now q1) = timer (update now q2)"
    and "this_time (update now q1) = this_time (update now q2)"
proof -
  show "timer (update now q1) = timer (update now q2)"
    by (simp add: timer_update assms(1))
  show "this_time (update now q1) = this_time (update now q2)"
  proof (cases "state (timer q2) = STATE_PAUSE")
    case True
    then show ?thesis using assms by (simp add: update_paused)
  next
    case False
    then show ?thesis using assms(1) by (simp add: this_time_update)
  qed
qed

lemma handleTimeInput_aliased:
  "time (timer q) = options_time q \<Longrightarrow>
   this_time (handleTimeInput fl sh sm ss q)
     = \<lparr>hours = Math_round (fl (of_int MAX_HOURS * sh)), minutes = Math_round (fl (60 * sm)),
        seconds = Math_round (fl (60 * ss))\<rparr>"
  by (simp add: this_time_def handleTimeInput_timer handleTimeInput_objs)

text \<open>
  Setting a time and starting the timer. A time of \<open>h\<close> hours, \<open>m\<close> minutes and \<open>s\<close>
  seconds, with \<open>h\<close> not negative and \<open>m\<close>, \<open>s\<close> from 0 to 59, is set and started at
  clock \<open>now\<close>; \<open>T\<close> is that time in microseconds. \<^verbatim>\<open>start()\<close> calls
  \<^verbatim>\<open>update()\<close> at clock \<open>now + d\<close>, and another update follows at \<open>now + d'\<close>. The
  microseconds left are \<open>T\<close> minus the time elapsed. As long as the deadline has not
  passed, the units shown are the quotients of the microseconds left, rounded down, hours
  unbounded and minutes and seconds modulo 60. With no time elapsed they are \<open>h\<close>,
  \<open>m\<close>, \<open>s\<close>; with at most 500000 microseconds elapsed the time shown is the time set
  or one second less. Once the deadline has passed the units are those of a negative
  number.
\<close>

lemma start_then_update_units:
  fixes h m s d d' now :: int
  defines "T \<equiv> SECOND_TO_MS * s + MINUTE_TO_MS * m + HOUR_TO_MS * h"
  assumes "0 \<le> h" "0 \<le> m" "m \<le> 59" "0 \<le> s" "s \<le> 59"
    and "objs w tr = \<lparr>hours = h, minutes = m, seconds = s\<rparr>"
  shows "remaining (start now (now + d) (setTime tr w)) = T - d
    \<and> remaining (update (now + d') (start now (now + d) (setTime tr w))) = T - d'
    \<and> (d' \<le> T \<longrightarrow>
         this_time (update (now + d') (start now (now + d) (setTime tr w)))
           = \<lparr>hours = (T - d') div HOUR_TO_MS,
              minutes = (T - d') div MINUTE_TO_MS mod 60,
              seconds = (T - d') div SECOND_TO_MS mod 60\<rparr>)
    \<and> (d \<le> T \<longrightarrow>
         this_time (start now (now + d) (setTime tr w))
           = \<lparr>hours = (T - d) div HOUR_TO_MS,
              minutes = (T - d) div MINUTE_TO_MS mod 60,
              seconds = (T - d) div SECOND_TO_MS mod 60\<rparr>)
    \<and> this_time (update now (start now now (setTime tr w)))
         = \<lparr>hours = h, minutes = m, seconds = s\<rparr>
    \<and> (0 \<le> d' \<and> d' \<le> 500000 \<and> d' \<le> T \<longrightarrow>
         total_seconds \<lparr>hours = h, minutes = m, seconds = s\<rparr> - 1
           \<le> total_seconds (this_time (update (now + d') (start now (now + d) (setTime tr w))))
         \<and> total_seconds (this_time (update (now + d') (start now (now + d) (setTime tr w))))
           \<le> total_seconds \<lparr>hours = h, minutes = m, seconds = s\<rparr>)"
proof -
  let ?w = "setTime tr w"
  have tt: "this_time ?w = \<lparr>hours = h, minutes = m, seconds = s\<rparr>"
    by (simp add: this_time_setTime assms(7))
  have fin: "ToNumber (finishTimestamp (timer (start now (now + d) ?w))) = now + T"
    by (simp add: finish_start tt T_def)
  have np: "state (timer (start now (now + d) ?w)) \<noteq> STATE_PAUSE"
    by (rule state_start_not_paused)
  have c1: "remaining (start now (now + d) ?w) = T - d"
    by (simp add: remaining_def timer_start tt T_def ToNumber_Some)
  have c2: "remaining (update (now + d') (start now (now + d) ?w)) = T - d'"
    by (simp add: remaining_update [OF np] fin)
  have u: "this_time (update (now + d') (start now (now + d) ?w))
      = \<lparr>hours = (T - d') div HOUR_TO_MS, minutes = unit_of (T - d') MINUTE_TO_MS,
         seconds = unit_of (T - d') SECOND_TO_MS\<rparr>"
    by (simp add: this_time_update [OF np] fin)
  have c3: "d' \<le> T \<longrightarrow>
         this_time (update (now + d') (start now (now + d) ?w))
           = \<lparr>hours = (T - d') div HOUR_TO_MS,
              minutes = (T - d') div MINUTE_TO_MS mod 60,
              seconds = (T - d') div SECOND_TO_MS mod 60\<rparr>"
    by (simp add: u unit_of_nonneg)
  have s0: "now + SECOND_TO_MS * s + MINUTE_TO_MS * m + HOUR_TO_MS * h - (now + d) = T - d"
    by (simp add: T_def)
  have us: "this_time (start now (now + d) ?w)
      = \<lparr>hours = (T - d) div HOUR_TO_MS, minutes = unit_of (T - d) MINUTE_TO_MS,
         seconds = unit_of (T - d) SECOND_TO_MS\<rparr>"
    by (simp only: this_time_start tt Time.simps s0)
  have c4: "d \<le> T \<longrightarrow>
         this_time (start now (now + d) ?w)
           = \<lparr>hours = (T - d) div HOUR_TO_MS,
              minutes = (T - d) div MINUTE_TO_MS mod 60,
              seconds = (T - d) div SECOND_TO_MS mod 60\<rparr>"
    by (simp add: us unit_of_nonneg)
  have fin0: "ToNumber (finishTimestamp (timer (start now now ?w))) = now + T"
    by (simp add: finish_start tt T_def)
  have np0: "state (timer (start now now ?w)) \<noteq> STATE_PAUSE"
    by (rule state_start_not_paused)
  have c5: "this_time (update now (start now now ?w)) = \<lparr>hours = h, minutes = m, seconds = s\<rparr>"
    using units_of_duration [OF assms(2-6)]
    by (simp add: this_time_update [OF np0] fin0 T_def)
  have ts: "total_seconds \<lparr>hours = h, minutes = m, seconds = s\<rparr> * SECOND_TO_MS = T"
    by (simp add: total_seconds_def T_def SECOND_TO_MS_def MINUTE_TO_MS_def HOUR_TO_MS_def)
  have c6: "0 \<le> d' \<and> d' \<le> 500000 \<and> d' \<le> T \<longrightarrow>
         total_seconds \<lparr>hours = h, minutes = m, seconds = s\<rparr> - 1
           \<le> total_seconds (this_time (update (now + d') (start now (now + d) ?w)))
         \<and> total_seconds (this_time (update (now + d') (start now (now + d) ?w)))
           \<le> total_seconds \<lparr>hours = h, minutes = m, seconds = s\<rparr>"
  proof
    assume a: "0 \<le> d' \<and> d' \<le> 500000 \<and> d' \<le> T"
    then have nn: "0 \<le> T - d'" by simp
    define S where "S = total_seconds \<lparr>hours = h, minutes = m, seconds = s\<rparr>"
    have T: "T = S * 1000000"
      using ts by (simp add: S_def SECOND_TO_MS_def)
    have "total_seconds (this_time (update (now + d') (start now (now + d) ?w)))
        = (T - d') div 1000000"
      unfolding u using total_seconds_units [OF nn] by (simp add: SECOND_TO_MS_def)
    moreover have "S - 1 \<le> (S * 1000000 - d') div 1000000 \<and> (S * 1000000 - d') div 1000000 \<le> S"
      using a div_within_tick [of d' S] by simp
    ultimately show "total_seconds \<lparr>hours = h, minutes = m, seconds = s\<rparr> - 1
           \<le> total_seconds (this_time (update (now + d') (start now (now + d) ?w)))
         \<and> total_seconds (this_time (update (now + d') (start now (now + d) ?w)))
           \<le> total_seconds \<lparr>hours = h, minutes = m, seconds = s\<rparr>"
      by (simp add: T flip: S_def)
  qed
  show ?thesis
    using c1 c2 c3 c4 c5 c6 by blast
qed

lemma start_then_update_units_example:
  "(0::int) \<le> 40 \<and> (40::int) \<le> 59
   \<and> objs (TimerPopup_init boot) 0 = \<lparr>hours = 0, minutes = 40, seconds = 0\<rparr>
   \<and> remaining (update (0 + 1) (start 0 (0 + 0) (setTime 0 (TimerPopup_init boot))))
       = 2399999999
   \<and> this_time (update (0 + 1) (start 0 (0 + 0) (setTime 0 (TimerPopup_init boot))))
       = \<lparr>hours = 0, minutes = 39, seconds = 59\<rparr>
   \<and> this_time (update 0 (start 0 0 (setTime 0 (TimerPopup_init boot))))
       = \<lparr>hours = 0, minutes = 40, seconds = 0\<rparr>"
proof -
  have h: "objs (TimerPopup_init boot) 0 = \<lparr>hours = 0, minutes = 40, seconds = 0\<rparr>"
    by code_simp
  have r: "(0::int) \<le> 0" "(0::int) \<le> 40" "(40::int) \<le> 59" "(0::int) \<le> 59"
    by simp_all
  from start_then_update_units [where h = 0 and m = 40 and s = 0 and d = 0 and d' = 1
      and now = 0 and w = "TimerPopup_init boot" and tr = 0, OF r(1) r(2) r(3) r(1) r(4) h]
  show ?thesis
    using h by (simp add: SECOND_TO_MS_def MINUTE_TO_MS_def HOUR_TO_MS_def)
qed

lemma display_updatePanelLabel:
  "panelLabel (updatePanelLabel (Some (c # cs)) p) = c # cs"
  "panelLabel (updatePanelLabel None p)
     = (if isStopped p then getFormatted (objs p (options_time p))
        else getFormatted (this_time p))"
  "panelIcon (updatePanelLabel txt p) = playStateIconMap (state (timer p))"
  by (simp_all add: updatePanelLabel_def Let_def split: option.split list.split)

lemma state_stop_idem: "state t = STATE_STOP \<Longrightarrow> t\<lparr>state := STATE_STOP\<rparr> = (t::Timer)"
  by (cases t) simp

lemma display_stopTimer:
  "panelLabel (stopTimer (Some (c # cs)) p) = c # cs"
  "panelIcon (stopTimer txt p) = playStateIconMap STATE_STOP"
  by (simp_all add: stopTimer_def Let_def display_updatePanelLabel timer_stop log_call_fields
      stopDisplayingTime_def)

lemma display_log_call:
  "panelLabel (log_call e p) = panelLabel p" "panelIcon (log_call e p) = panelIcon p"
  by (simp_all add: log_call_def)

lemma display_updateTimer:
  "timer (snd (updateTimer now p)) = timer (update now p)"
  "panelLabel (snd (updateTimer now p))
     = (if isStopped (update now p) then ''Done!'' else getFormatted (this_time (update now p)))"
  "panelIcon (snd (updateTimer now p)) = playStateIconMap (state (timer (update now p)))"
proof -
  have s: "isStopped (update now (log_call CallUpdate p)) = isStopped (update now p)"
    by (simp add: isStopped_def timer_update_log)
  show "timer (snd (updateTimer now p)) = timer (update now p)"
    by (simp add: updateTimer_def Let_def s log_call_fields timer_stopTimer
        updatePanelLabel_fields timer_update_log)
      (simp add: isStopped_def state_stop_idem)
  show "panelLabel (snd (updateTimer now p))
     = (if isStopped (update now p) then ''Done!'' else getFormatted (this_time (update now p)))"
    by (simp add: updateTimer_def Let_def s display_log_call display_stopTimer
        display_updatePanelLabel this_time_update_log)
  show "panelIcon (snd (updateTimer now p)) = playStateIconMap (state (timer (update now p)))"
    by (simp add: updateTimer_def Let_def s display_log_call display_stopTimer
        display_updatePanelLabel timer_update_log)
      (simp add: isStopped_def)
qed

lemma display_startDisplayingTime:
  "timer (startDisplayingTime now p) = timer (update now p)"
  "panelLabel (startDisplayingTime now p)
     = (if isStopped (update now p) then ''Done!'' else getFormatted (this_time (update now p)))"
  "panelIcon (startDisplayingTime now p) = playStateIconMap (state (timer (update now p)))"
  "timeout (startDisplayingTime now p) = Some (next_source p)"
  by (simp_all add: startDisplayingTime_def Let_def log_call_def display_updateTimer
      next_source_updateTimer)

lemma done_notified_again:
  "calls (snd (updateTimer 2 (startDisplayingTime 1
      (start 0 0 (setTime (options_time (handleTimeInput (\<lambda>x. x) 0 0 0 (TimerPopup_init boot)))
          (handleTimeInput (\<lambda>x. x) 0 0 0 (TimerPopup_init boot)))))))
   = [CallUpdate, SourceRemove None, CallStop, Notify ''Done!'', TimeoutAdd 500 1,
      CallUpdate, SourceRemove (Some 1), CallStop, Notify ''Done!'']"
  by code_simp

section \<open>The claims\<close>

text \<open>
  C6. While the timer is Playing, successive calls of \<^verbatim>\<open>update()\<close> at clock readings
  that do not decrease yield remaining times that do not increase: the microseconds
  left after each call, and the seconds that the time shows as long as the timer plays.
  After each call the timer is Stopped exactly when the remaining time is zero or less,
  and along the whole sequence the state goes to Stopped once if a reading reaches the
  deadline and never otherwise.
\<close>

theorem update_monotone_until_stopped:
  assumes "sorted nows" and "state (timer w) = STATE_PLAY"
  shows "sorted_wrt (\<lambda>a b. remaining b \<le> remaining a) (updates nows w)
    \<and> sorted_wrt (\<lambda>a b. isPlaying b \<longrightarrow> total_seconds (this_time b) \<le> total_seconds (this_time a))
        (updates nows w)
    \<and> list_all (\<lambda>v. state (timer v) = (if remaining v \<le> 0 then STATE_STOP else STATE_PLAY))
        (updates nows w)
    \<and> stop_transitions STATE_PLAY (map (\<lambda>v. state (timer v)) (updates nows w))
        = (if \<exists>n \<in> set nows. ToNumber (finishTimestamp (timer w)) \<le> n then 1 else 0)"
proof -
  have np: "state (timer w) \<noteq> STATE_PAUSE"
    using assms(2) by simp
  have s1: "sorted_wrt (\<lambda>a b. remaining b \<le> remaining a) (updates nows w)"
    by (rule updates_sorted [OF assms(1) np])
  have s3: "list_all (\<lambda>v. state (timer v) = (if remaining v \<le> 0 then STATE_STOP else STATE_PLAY))
        (updates nows w)"
    using states_updates [OF assms(1), of w] assms(2) by simp
  have tt: "list_all (\<lambda>v. this_time v = \<lparr>hours = remaining v div HOUR_TO_MS,
                                  minutes = unit_of (remaining v) MINUTE_TO_MS,
                                  seconds = unit_of (remaining v) SECOND_TO_MS\<rparr>) (updates nows w)"
    by (rule this_time_updates [OF np])
  have shown: "total_seconds (this_time v) = remaining v div SECOND_TO_MS"
    if "v \<in> set (updates nows w)" "0 \<le> remaining v" for v
    using tt that by (simp add: list_all_iff total_seconds_units)
  have s2: "sorted_wrt (\<lambda>a b. isPlaying b \<longrightarrow> total_seconds (this_time b) \<le> total_seconds (this_time a))
        (updates nows w)"
  proof (rule sorted_wrt_mono_rel [OF _ s1])
    fix a b
    assume a: "a \<in> set (updates nows w)" and b: "b \<in> set (updates nows w)"
      and le: "remaining b \<le> remaining a"
    show "isPlaying b \<longrightarrow> total_seconds (this_time b) \<le> total_seconds (this_time a)"
    proof
      assume "isPlaying b"
      then have "0 < remaining b"
        using s3 b by (auto simp: list_all_iff isPlaying_def split: if_splits)
      then have "0 \<le> remaining b" "0 \<le> remaining a" using le by simp_all
      then show "total_seconds (this_time b) \<le> total_seconds (this_time a)"
        using le by (simp add: shown a b SECOND_TO_MS_def zdiv_mono1)
    qed
  qed
  show ?thesis
    using s1 s2 s3 stop_transitions_updates [OF assms] by simp
qed

theorem update_monotone_until_stopped_witness:
  "sorted [0, 600000000, 2400000000, 2400000001 :: int]
   \<and> state (timer (start 0 0 (TimerPopup_init boot))) = STATE_PLAY
   \<and> sorted_wrt (\<lambda>a b. remaining b \<le> remaining a)
        (updates [0, 600000000, 2400000000, 2400000001] (start 0 0 (TimerPopup_init boot)))
   \<and> map remaining (updates [0, 600000000, 2400000000, 2400000001] (start 0 0 (TimerPopup_init boot)))
       = [2400000000, 1800000000, 0, - 1]
   \<and> stop_transitions STATE_PLAY (map (\<lambda>v. state (timer v))
        (updates [0, 600000000, 2400000000, 2400000001] (start 0 0 (TimerPopup_init boot)))) = 1"
proof -
  have h1: "sorted [0, 600000000, 2400000000, 2400000001 :: int]"
    by simp
  have h2: "state (timer (start 0 0 (TimerPopup_init boot))) = STATE_PLAY"
    by code_simp
  have h3: "finishTimestamp (timer (start 0 0 (TimerPopup_init boot))) = Some 2400000000"
    by code_simp
  have h4: "map remaining (updates [0, 600000000, 2400000000, 2400000001] (start 0 0 (TimerPopup_init boot)))
       = [2400000000, 1800000000, 0, - 1]"
    by code_simp
  from update_monotone_until_stopped [OF h1 h2] show ?thesis
    using h1 h2 h4 by (simp add: h3 ToNumber_def)
qed

text \<open>
  C7. While the timer is Paused, \<^verbatim>\<open>update()\<close> changes nothing, whatever the clock
  shows: the world after the call is the world before it, so every field of the timer and
  the remaining time it last computed stay as they were, also over any number of calls.
  In the first version of the timer, where \<^verbatim>\<open>update()\<close> returns a value, a paused
  timer returns the \<^verbatim>\<open>mcsLeft\<close> it computed last and stays unchanged, so that a second
  call returns the same.
\<close>

theorem update_paused_noop:
  "(state (timer w) = STATE_PAUSE \<longrightarrow>
      update now w = w \<and> updates nows w = replicate (length nows) w)
   \<and> (isPaused0 t \<longrightarrow>
      update0 now t = (js_number_or_null (mcsLeft0 t), t)
      \<and> update0 now' (snd (update0 now t)) = update0 now t)"
  by (simp add: update_paused updates_paused update0_def)

theorem update_paused_noop_witness:
  "state (timer (pause 5 (start 0 0 (TimerPopup_init boot)))) = STATE_PAUSE
   \<and> update 9000000000 (pause 5 (start 0 0 (TimerPopup_init boot)))
       = pause 5 (start 0 0 (TimerPopup_init boot))
   \<and> remaining (update 9000000000 (pause 5 (start 0 0 (TimerPopup_init boot)))) = 2400000000
   \<and> isPaused0 (pause0 5 (snd (update0 1 (Timer0_constructor 0 0 0 5))))
   \<and> fst (update0 9000000000 (pause0 5 (snd (update0 1 (Timer0_constructor 0 0 0 5)))))
       = JNumber 4999999"
proof -
  have h1: "state (timer (pause 5 (start 0 0 (TimerPopup_init boot)))) = STATE_PAUSE"
    by (simp add: timer_pause)
  have h2: "isPaused0 (pause0 5 (snd (update0 1 (Timer0_constructor 0 0 0 5))))"
    by (simp add: isPaused0_def pause0_def)
  have h3: "remaining (pause 5 (start 0 0 (TimerPopup_init boot))) = 2400000000"
    by code_simp
  have h4: "js_number_or_null (mcsLeft0 (pause0 5 (snd (update0 1 (Timer0_constructor 0 0 0 5)))))
       = JNumber 4999999"
    by code_simp
  from update_paused_noop [of "pause 5 (start 0 0 (TimerPopup_init boot))" 9000000000 "[]"
      "pause0 5 (snd (update0 1 (Timer0_constructor 0 0 0 5)))" 9000000000]
  show ?thesis
    using h1 h2 h3 h4 by simp
qed

text \<open>
  C4. A Playing timer is paused at clock \<open>p\<close>, resumed at \<open>p + d\<close> and updated at
  \<open>p + d + e\<close>. \<^verbatim>\<open>resume()\<close> moves the deadline forward by the length of the pause,
  \<open>(p + d) - p\<close>, and the update yields what an update at \<open>p + e\<close> yields on the timer
  that was never paused: the same microseconds left, the same time shown and the same
  state, none of which depends on \<open>d\<close>.
\<close>

theorem pause_excluded_from_countdown:
  assumes "state (timer w) = STATE_PLAY"
  shows "finishTimestamp (timer (resume (p + d) (pause p w)))
     = Some (ToNumber (finishTimestamp (timer w)) + ((p + d) - p))
   \<and> remaining (update (p + d + e) (resume (p + d) (pause p w)))
     = ToNumber (finishTimestamp (timer w)) - (p + e)
   \<and> remaining (update (p + d + e) (resume (p + d) (pause p w))) = remaining (update (p + e) w)
   \<and> this_time (update (p + d + e) (resume (p + d) (pause p w))) = this_time (update (p + e) w)
   \<and> state (timer (update (p + d + e) (resume (p + d) (pause p w))))
     = state (timer (update (p + e) w))"
proof -
  have r: "state (timer (resume (p + d) (pause p w))) \<noteq> STATE_PAUSE"
    by (simp add: timer_resume)
  have r': "state (timer (resume (p + d) (pause p w))) = state (timer w)"
    using assms by (simp add: timer_resume)
  have np: "state (timer w) \<noteq> STATE_PAUSE"
    using assms by simp
  have c1: "finishTimestamp (timer (resume (p + d) (pause p w)))
     = Some (ToNumber (finishTimestamp (timer w)) + ((p + d) - p))"
    by (simp add: timer_resume timer_pause ToNumber_Some)
  have c2: "remaining (update (p + d + e) (resume (p + d) (pause p w)))
     = ToNumber (finishTimestamp (timer w)) - (p + e)"
    by (simp only: remaining_update [OF r] resume_pause_deadline)
  have c3: "remaining (update (p + e) w) = ToNumber (finishTimestamp (timer w)) - (p + e)"
    by (rule remaining_update [OF np])
  have c4: "this_time (update (p + d + e) (resume (p + d) (pause p w))) = this_time (update (p + e) w)"
    by (simp only: this_time_update [OF r] this_time_update [OF np] resume_pause_deadline)
  have c5: "state (timer (update (p + d + e) (resume (p + d) (pause p w))))
     = state (timer (update (p + e) w))"
    by (simp only: state_update [OF r] state_update [OF np] resume_pause_deadline r')
  show ?thesis
    using c1 c2 c3 c4 c5 by simp
qed

theorem pause_excluded_from_countdown_witness:
  "state (timer (start 0 0 (TimerPopup_init boot))) = STATE_PLAY
   \<and> remaining (update (5 + 3600000000 + 1000000)
        (resume (5 + 3600000000) (pause 5 (start 0 0 (TimerPopup_init boot))))) = 2398999995
   \<and> this_time (update (5 + 3600000000 + 1000000)
        (resume (5 + 3600000000) (pause 5 (start 0 0 (TimerPopup_init boot)))))
      = \<lparr>hours = 0, minutes = 39, seconds = 58\<rparr>"
proof -
  have h1: "state (timer (start 0 0 (TimerPopup_init boot))) = STATE_PLAY"
    by code_simp
  have h2: "finishTimestamp (timer (start 0 0 (TimerPopup_init boot))) = Some 2400000000"
    by code_simp
  have h3: "this_time (update (5 + 1000000) (start 0 0 (TimerPopup_init boot)))
      = \<lparr>hours = 0, minutes = 39, seconds = 58\<rparr>"
    by code_simp
  from pause_excluded_from_countdown [OF h1, of 5 3600000000 1000000]
  show ?thesis
    using h1 h3 by (simp add: h2 ToNumber_Some)
qed

text \<open>
  C9. Starting the refresh loop (\<^verbatim>\<open>startDisplayingTime\<close>) calls the timer's
  \<^verbatim>\<open>update()\<close> exactly once, as the first thing it does, and schedules the callback
  with \<^verbatim>\<open>Mainloop.timeout_add(500, ...)\<close> as the last: the calls it adds are one
  \<^verbatim>\<open>update()\<close>, then what an expiry at this very update entails, then the
  \<^verbatim>\<open>timeout_add\<close>. \<^verbatim>\<open>handlePlayClick\<close> of \<^verbatim>\<open>extension.js\<close>, which has these two
  steps written in place, does the same as the one that goes through
  \<^verbatim>\<open>startDisplayingTime\<close>. When the loop has been started the display shows the
  result of that update: the timer is what \<^verbatim>\<open>update()\<close> at this clock reading makes
  of it, the label is the timer's time as that update computed it, or \<^verbatim>\<open>Done!\<close> if
  it stopped the timer, and the icon is the one of the state after the update. For a
  Playing timer before its deadline the label is the time left at this clock reading,
  in hours, minutes and seconds, and the icon is the one of a Playing timer.
\<close>

theorem refresh_loop_updates_once_first:
  "calls (startDisplayingTime now p) =
     calls p @ [CallUpdate]
     @ (if isStopped (update now p)
        then [SourceRemove (timeout p), CallStop, Notify ''Done!''] else [])
     @ [TimeoutAdd 500 (next_source p)]
   \<and> count_list (calls (startDisplayingTime now p)) CallUpdate
       = count_list (calls p) CallUpdate + 1
   \<and> handlePlayClick_ext now0 now1 now p = handlePlayClick now0 now1 now p
   \<and> timer (startDisplayingTime now p) = timer (update now p)
   \<and> panelLabel (startDisplayingTime now p)
       = (if isStopped (update now p) then ''Done!''
          else getFormatted (this_time (update now p)))
   \<and> panelIcon (startDisplayingTime now p) = playStateIconMap (state (timer (update now p)))
   \<and> timeout (startDisplayingTime now p) = Some (next_source p)
   \<and> (state (timer p) = STATE_PLAY \<and> now < ToNumber (finishTimestamp (timer p)) \<longrightarrow>
        panelLabel (startDisplayingTime now p)
          = getFormatted
              \<lparr>hours = (ToNumber (finishTimestamp (timer p)) - now) div HOUR_TO_MS,
               minutes = (ToNumber (finishTimestamp (timer p)) - now) div MINUTE_TO_MS mod 60,
               seconds = (ToNumber (finishTimestamp (timer p)) - now) div SECOND_TO_MS mod 60\<rparr>
        \<and> panelIcon (startDisplayingTime now p) = ''media-playback-start-symbolic''
        \<and> remaining (startDisplayingTime now p) = ToNumber (finishTimestamp (timer p)) - now)"
proof -
  have c: "calls (startDisplayingTime now p) =
     calls p @ [CallUpdate]
     @ (if isStopped (update now p)
        then [SourceRemove (timeout p), CallStop, Notify ''Done!''] else [])
     @ [TimeoutAdd 500 (next_source p)]"
    by (simp add: startDisplayingTime_def Let_def log_call_fields calls_updateTimer
        next_source_updateTimer)
  have n: "count_list (calls (startDisplayingTime now p)) CallUpdate
       = count_list (calls p) CallUpdate + 1"
    unfolding c by simp
  have e: "handlePlayClick_ext now0 now1 now p = handlePlayClick now0 now1 now p"
    by (simp add: handlePlayClick_ext_def handlePlayClick_def startTimer_def
        startDisplayingTime_def Let_def)
  have playing: "panelLabel (startDisplayingTime now p)
          = getFormatted
              \<lparr>hours = (ToNumber (finishTimestamp (timer p)) - now) div HOUR_TO_MS,
               minutes = (ToNumber (finishTimestamp (timer p)) - now) div MINUTE_TO_MS mod 60,
               seconds = (ToNumber (finishTimestamp (timer p)) - now) div SECOND_TO_MS mod 60\<rparr>
        \<and> panelIcon (startDisplayingTime now p) = ''media-playback-start-symbolic''
        \<and> remaining (startDisplayingTime now p) = ToNumber (finishTimestamp (timer p)) - now"
    if a: "state (timer p) = STATE_PLAY \<and> now < ToNumber (finishTimestamp (timer p))"
  proof -
    have np: "state (timer p) \<noteq> STATE_PAUSE" using a by simp
    have pos: "0 \<le> ToNumber (finishTimestamp (timer p)) - now" using a by simp
    have st: "state (timer (update now p)) = STATE_PLAY"
      using a by (simp add: state_update [OF np])
    have r: "remaining (startDisplayingTime now p) = remaining (update now p)"
      by (simp add: remaining_def display_startDisplayingTime)
    show ?thesis
      using st by (simp add: display_startDisplayingTime isStopped_def this_time_update [OF np]
          unit_of_nonneg [OF pos] r remaining_update [OF np])
  qed
  show ?thesis
    using c n e playing by (simp add: display_startDisplayingTime)
qed

theorem refresh_loop_updates_once_first_witness:
  "state (timer (start 0 0 (TimerPopup_init boot))) = STATE_PLAY
   \<and> 1500000 < ToNumber (finishTimestamp (timer (start 0 0 (TimerPopup_init boot))))
   \<and> panelLabel (start 0 0 (TimerPopup_init boot)) = ''00:40:00''
   \<and> panelLabel (startDisplayingTime 1500000 (start 0 0 (TimerPopup_init boot))) = ''00:39:58''
   \<and> panelIcon (startDisplayingTime 1500000 (start 0 0 (TimerPopup_init boot)))
       = ''media-playback-start-symbolic''
   \<and> remaining (startDisplayingTime 1500000 (start 0 0 (TimerPopup_init boot))) = 2398500000"
proof -
  have h1: "state (timer (start 0 0 (TimerPopup_init boot))) = STATE_PLAY"
    by code_simp
  have h2: "ToNumber (finishTimestamp (timer (start 0 0 (TimerPopup_init boot)))) = 2400000000"
    by code_simp
  have h3: "panelLabel (start 0 0 (TimerPopup_init boot)) = ''00:40:00''"
    by code_simp
  have h4: "getFormatted \<lparr>hours = 2398500000 div HOUR_TO_MS,
               minutes = 2398500000 div MINUTE_TO_MS mod 60,
               seconds = 2398500000 div SECOND_TO_MS mod 60\<rparr> = ''00:39:58''"
    by code_simp
  have h5: "1500000 < ToNumber (finishTimestamp (timer (start 0 0 (TimerPopup_init boot))))"
    by (simp add: h2)
  note t = refresh_loop_updates_once_first [of 1500000 "start 0 0 (TimerPopup_init boot)" 0 0]
  note i = t [THEN conjunct2, THEN conjunct2, THEN conjunct2, THEN conjunct2, THEN conjunct2,
      THEN conjunct2, THEN conjunct2, THEN mp, OF conjI [OF h1 h5]]
  have l: "panelLabel (startDisplayingTime 1500000 (start 0 0 (TimerPopup_init boot)))
      = ''00:39:58''"
    using i [THEN conjunct1] by (simp add: h2 h4)
  have r: "remaining (startDisplayingTime 1500000 (start 0 0 (TimerPopup_init boot)))
      = 2398500000"
    using i [THEN conjunct2, THEN conjunct2] by (simp add: h2)
  show ?thesis
    using h1 h5 h3 l r i [THEN conjunct2, THEN conjunct1] by simp
qed

text \<open>
  C1. The claim is that an \<^verbatim>\<open>update()\<close> which computes a remaining time of zero or
  less leaves the timer Stopped with a time of zero in every unit. The state is as
  claimed (\<open>update_expired_state\<close>), and the popup's \<^verbatim>\<open>updateTimer\<close> ends with the time at
  zero, the label \<^verbatim>\<open>Done!\<close>, one notification and the result \<^verbatim>\<open>false\<close>
  (\<open>updateTimer_expired\<close>), because \<^verbatim>\<open>stopTimer\<close> calls \<^verbatim>\<open>stop()\<close> once more. The
  time after \<^verbatim>\<open>update()\<close> itself is not zero when the deadline has passed: the units are
  assigned after \<^verbatim>\<open>this.stop()\<close> has cleared them. A timer set to one second and started
  at clock 0 has the deadline 1000000; updated at clock 2500000 it is Stopped with
  -1500000 microseconds left, and its time is -1 hours, -1 minutes, -2 seconds. The one
  notification is that of one call of \<^verbatim>\<open>updateTimer\<close>: when the update that starts
  the refresh loop is the one that stops the timer, the callback is scheduled all the
  same, and its first run notifies once more (\<open>done_notified_again\<close>).
\<close>

theorem update_expiry_leaves_negative_units:
  "state (timer (handlePlayClick 0 0 0 (handleTimeInput (\<lambda>x. x) 0 0 (1 / 64) (TimerPopup_init boot))))
     = STATE_PLAY
   \<and> finishTimestamp (timer (handlePlayClick 0 0 0
        (handleTimeInput (\<lambda>x. x) 0 0 (1 / 64) (TimerPopup_init boot)))) = Some 1000000
   \<and> state (timer (update 2500000 (handlePlayClick 0 0 0
        (handleTimeInput (\<lambda>x. x) 0 0 (1 / 64) (TimerPopup_init boot))))) = STATE_STOP
   \<and> remaining (update 2500000 (handlePlayClick 0 0 0
        (handleTimeInput (\<lambda>x. x) 0 0 (1 / 64) (TimerPopup_init boot)))) = - 1500000
   \<and> this_time (update 2500000 (handlePlayClick 0 0 0
        (handleTimeInput (\<lambda>x. x) 0 0 (1 / 64) (TimerPopup_init boot))))
       = \<lparr>hours = - 1, minutes = - 1, seconds = - 2\<rparr>
   \<and> getFormatted (this_time (update 2500000 (handlePlayClick 0 0 0
        (handleTimeInput (\<lambda>x. x) 0 0 (1 / 64) (TimerPopup_init boot))))) = ''-1:-1:-2''"
  by code_simp

text \<open>
  C3. The claim is that after every operation the units of the timer's time are not
  negative, with minutes and seconds at most 59. That holds after an update before the
  deadline (\<open>update_units_in_range\<close>) and after \<^verbatim>\<open>stop()\<close> (\<open>this_time_stop\<close>). It
  fails after \<^verbatim>\<open>start()\<close> on a time of zero when the clock advances by one
  microsecond between the reading in \<^verbatim>\<open>start()\<close> and the reading in the
  \<^verbatim>\<open>update()\<close> it calls: the timer is Stopped and its time is -1 hours, -1 minutes,
  -1 seconds.
\<close>

theorem start_zero_duration_negative_units:
  "this_time (setTime (options_time (handleTimeInput (\<lambda>x. x) 0 0 0 (TimerPopup_init boot)))
        (handleTimeInput (\<lambda>x. x) 0 0 0 (TimerPopup_init boot)))
     = \<lparr>hours = 0, minutes = 0, seconds = 0\<rparr>
   \<and> state (timer (start 0 1 (setTime (options_time (handleTimeInput (\<lambda>x. x) 0 0 0 (TimerPopup_init boot)))
        (handleTimeInput (\<lambda>x. x) 0 0 0 (TimerPopup_init boot))))) = STATE_STOP
   \<and> remaining (start 0 1 (setTime (options_time (handleTimeInput (\<lambda>x. x) 0 0 0 (TimerPopup_init boot)))
        (handleTimeInput (\<lambda>x. x) 0 0 0 (TimerPopup_init boot)))) = - 1
   \<and> this_time (start 0 1 (setTime (options_time (handleTimeInput (\<lambda>x. x) 0 0 0 (TimerPopup_init boot)))
        (handleTimeInput (\<lambda>x. x) 0 0 0 (TimerPopup_init boot))))
       = \<lparr>hours = - 1, minutes = - 1, seconds = - 1\<rparr>"
  by code_simp

text \<open>
  C2. The claim is that a transition called from a state in which it is not valid raises
  an error or does nothing. The timer's methods do not look at the state: on the Stopped
  timer that \<^verbatim>\<open>_init()\<close> leaves, \<^verbatim>\<open>pause()\<close> makes the timer Paused and
  \<^verbatim>\<open>resume()\<close> makes it Playing, and \<^verbatim>\<open>start()\<close> on a Playing timer sets a new
  deadline.
\<close>

theorem transitions_from_invalid_state_counterexample:
  "state (timer (TimerPopup_init boot)) = STATE_STOP
   \<and> state (timer (pause 7 (TimerPopup_init boot))) = STATE_PAUSE
   \<and> state (timer (resume 7 (TimerPopup_init boot))) = STATE_PLAY
   \<and> state (timer (start 0 0 (TimerPopup_init boot))) = STATE_PLAY
   \<and> finishTimestamp (timer (start 0 0 (TimerPopup_init boot))) = Some 2400000000
   \<and> finishTimestamp (timer (start 1000000 1000000 (start 0 0 (TimerPopup_init boot))))
       = Some 2401000000"
  by code_simp

text \<open>
  C2, as amended. \<^verbatim>\<open>pause()\<close>, \<^verbatim>\<open>resume()\<close> and \<^verbatim>\<open>start()\<close> take effect in every
  state: \<^verbatim>\<open>pause()\<close> makes the timer Paused and records the clock, \<^verbatim>\<open>resume()\<close> makes
  it Playing and moves the deadline by the clock minus \<^verbatim>\<open>pauseTimestamp\<close>,
  \<^verbatim>\<open>start()\<close> sets the deadline to the clock plus the timer's current time and makes
  the timer Playing, whatever its state was; the \<^verbatim>\<open>update()\<close> it ends with, at clock
  \<open>now'\<close>, leaves it Playing if the deadline is still ahead and Stopped if not. The states
  are told apart by the caller: among the calls that one \<^verbatim>\<open>handlePlayClick\<close> makes,
  \<^verbatim>\<open>start()\<close> occurs exactly when the timer was Stopped, \<^verbatim>\<open>pause()\<close> exactly when
  it was Playing and \<^verbatim>\<open>resume()\<close> exactly when it was Paused.
\<close>

theorem transitions_unguarded_in_timer:
  "state (timer (pause now w)) = STATE_PAUSE
   \<and> pauseTimestamp (timer (pause now w)) = Some now
   \<and> state (timer (resume now w)) = STATE_PLAY
   \<and> finishTimestamp (timer (resume now w))
       = Some (ToNumber (finishTimestamp (timer w)) + (now - ToNumber (pauseTimestamp (timer w))))
   \<and> finishTimestamp (timer (start now now' w))
       = Some (now + SECOND_TO_MS * seconds (this_time w) + MINUTE_TO_MS * minutes (this_time w)
               + HOUR_TO_MS * hours (this_time w))
   \<and> state (timer (start now now' w))
       = (if now + SECOND_TO_MS * seconds (this_time w) + MINUTE_TO_MS * minutes (this_time w)
               + HOUR_TO_MS * hours (this_time w) - now' \<le> 0
          then STATE_STOP else STATE_PLAY)
   \<and> (CallStart \<in> set (drop (length (calls p)) (calls (handlePlayClick now now' now'' p))))
       = (state (timer p) = STATE_STOP)
   \<and> (CallPause \<in> set (drop (length (calls p)) (calls (handlePlayClick now now' now'' p))))
       = (state (timer p) = STATE_PLAY)
   \<and> (CallResume \<in> set (drop (length (calls p)) (calls (handlePlayClick now now' now'' p))))
       = (state (timer p) = STATE_PAUSE)"
proof -
  have g: "(CallStart \<in> set (drop (length (calls p)) (calls (handlePlayClick now now' now'' p))))
       = (state (timer p) = STATE_STOP)
   \<and> (CallPause \<in> set (drop (length (calls p)) (calls (handlePlayClick now now' now'' p))))
       = (state (timer p) = STATE_PLAY)
   \<and> (CallResume \<in> set (drop (length (calls p)) (calls (handlePlayClick now now' now'' p))))
       = (state (timer p) = STATE_PAUSE)"
    by (cases "state (timer p)") (simp_all add: calls_handlePlayClick calls_startTimer)
  show ?thesis
    using g by (simp add: timer_pause timer_resume timer_start)
qed

text \<open>
  C5. The claim is that \<^verbatim>\<open>pauseTimestamp\<close> is \<^verbatim>\<open>null\<close> unless the timer is Paused,
  that \<^verbatim>\<open>finishTimestamp\<close> is \<^verbatim>\<open>null\<close> while it is Stopped, and that \<^verbatim>\<open>stop()\<close>
  clears both. \<^verbatim>\<open>stop()\<close> assigns neither: a timer started at clock 0, paused at 5
  and then stopped is Stopped with \<^verbatim>\<open>pauseTimestamp\<close> 5 and the deadline of the start.
\<close>

theorem stop_keeps_timestamps_counterexample:
  "state (timer (stop (pause 5 (start 0 0 (TimerPopup_init boot))))) = STATE_STOP
   \<and> pauseTimestamp (timer (stop (pause 5 (start 0 0 (TimerPopup_init boot))))) = Some 5
   \<and> finishTimestamp (timer (stop (pause 5 (start 0 0 (TimerPopup_init boot)))))
       = Some 2400000000
   \<and> this_time (stop (pause 5 (start 0 0 (TimerPopup_init boot))))
       = \<lparr>hours = 0, minutes = 0, seconds = 0\<rparr>"
  by code_simp

text \<open>
  C5, as amended. After any sequence of operations on a constructed timer, a Paused timer
  has a \<^verbatim>\<open>pauseTimestamp\<close> and a Playing timer has a \<^verbatim>\<open>finishTimestamp\<close>
  (\<open>timestamps_ok\<close>, which every operation preserves). The constructor sets both
  timestamps to \<^verbatim>\<open>null\<close> and \<^verbatim>\<open>resume()\<close> sets \<^verbatim>\<open>pauseTimestamp\<close> to \<^verbatim>\<open>null\<close>.
  \<^verbatim>\<open>stop()\<close> sets the time to zero and the state to Stopped and leaves every other
  field of the timer, the two timestamps among them, as it was.
\<close>

theorem timestamps_after_operations:
  "timestamps_ok (run xs (Timer_constructor tr w))
   \<and> (timestamps_ok w \<longrightarrow> timestamps_ok (run xs w))
   \<and> timer (stop w) = (timer w)\<lparr>state := STATE_STOP\<rparr>
   \<and> this_time (stop w) = \<lparr>hours = 0, minutes = 0, seconds = 0\<rparr>
   \<and> pauseTimestamp (timer (Timer_constructor tr w)) = None
   \<and> finishTimestamp (timer (Timer_constructor tr w)) = None
   \<and> pauseTimestamp (timer (resume now w)) = None"
  by (simp add: timestamps_ok_run timestamps_ok_constructor timer_stop this_time_stop
      timer_resume) (simp add: Timer_constructor_def Let_def timer_setTime)

theorem timestamps_after_operations_witness:
  "state (timer (run [OpStart 0 0, OpPause 5] (Timer_constructor 0 (TimerPopup_init boot))))
     = STATE_PAUSE
   \<and> pauseTimestamp (timer (run [OpStart 0 0, OpPause 5]
        (Timer_constructor 0 (TimerPopup_init boot)))) \<noteq> None
   \<and> state (timer (run [OpStart 0 0, OpPause 5, OpResume 9]
        (Timer_constructor 0 (TimerPopup_init boot)))) = STATE_PLAY
   \<and> finishTimestamp (timer (run [OpStart 0 0, OpPause 5, OpResume 9]
        (Timer_constructor 0 (TimerPopup_init boot)))) \<noteq> None"
proof -
  have h1: "state (timer (run [OpStart 0 0, OpPause 5] (Timer_constructor 0 (TimerPopup_init boot))))
     = STATE_PAUSE"
    by (simp add: timer_pause)
  have h2: "state (timer (run [OpStart 0 0, OpPause 5, OpResume 9]
        (Timer_constructor 0 (TimerPopup_init boot)))) = STATE_PLAY"
    by (simp add: timer_resume)
  from timestamps_after_operations [of "[OpStart 0 0, OpPause 5]" 0 "TimerPopup_init boot"]
    timestamps_after_operations [of "[OpStart 0 0, OpPause 5, OpResume 9]" 0 "TimerPopup_init boot"]
  show ?thesis
    using h1 h2 unfolding timestamps_ok_def by blast
qed

text \<open>
  C10. \<^verbatim>\<open>setTime(time)\<close> gives the timer a new \<^verbatim>\<open>Time\<close> object with the values of
  its argument. When \<^verbatim>\<open>options.time\<close> is an object of the store, the timer that
  \<^verbatim>\<open>startTimer\<close> has started holds another object than \<^verbatim>\<open>options.time\<close>. Slider
  input (\<^verbatim>\<open>handleTimeInput\<close>) then writes \<^verbatim>\<open>options.time\<close> and leaves the timer's
  fields, its deadline among them, and the timer's time as they were, while the timer is
  Playing and after it was paused; the next \<^verbatim>\<open>update()\<close>, also after a
  \<^verbatim>\<open>resume()\<close>, computes what it computes without the input. (Were the two the same
  object, the input would write the timer's time: \<open>handleTimeInput_aliased\<close>.)
\<close>

theorem setTime_snapshot:
  assumes "options_time p < fresh p"
  shows "this_time (setTime (options_time p) p) = objs p (options_time p)
    \<and> time (timer (startTimer now now' now'' p)) \<noteq> options_time (startTimer now now' now'' p)
    \<and> objs (handleTimeInput fl sh sm ss (startTimer now now' now'' p)) (options_time p)
        = \<lparr>hours = Math_round (fl (of_int MAX_HOURS * sh)), minutes = Math_round (fl (60 * sm)),
           seconds = Math_round (fl (60 * ss))\<rparr>
    \<and> timer (handleTimeInput fl sh sm ss (startTimer now now' now'' p))
        = timer (startTimer now now' now'' p)
    \<and> this_time (handleTimeInput fl sh sm ss (startTimer now now' now'' p))
        = this_time (startTimer now now' now'' p)
    \<and> timer (update n (handleTimeInput fl sh sm ss (startTimer now now' now'' p)))
        = timer (update n (startTimer now now' now'' p))
    \<and> this_time (update n (handleTimeInput fl sh sm ss (startTimer now now' now'' p)))
        = this_time (update n (startTimer now now' now'' p))
    \<and> timer (handleTimeInput fl sh sm ss (pause n0 (startTimer now now' now'' p)))
        = timer (pause n0 (startTimer now now' now'' p))
    \<and> this_time (handleTimeInput fl sh sm ss (pause n0 (startTimer now now' now'' p)))
        = this_time (pause n0 (startTimer now now' now'' p))
    \<and> timer (update n (resume n1 (handleTimeInput fl sh sm ss (pause n0 (startTimer now now' now'' p)))))
        = timer (update n (resume n1 (pause n0 (startTimer now now' now'' p))))
    \<and> this_time (update n (resume n1 (handleTimeInput fl sh sm ss (pause n0 (startTimer now now' now'' p)))))
        = this_time (update n (resume n1 (pause n0 (startTimer now now' now'' p))))"
proof -
  let ?q = "startTimer now now' now'' p"
  let ?q' = "pause n0 ?q"
  have ne: "time (timer ?q) \<noteq> options_time ?q"
    using assms by (simp add: startTimer_refs)
  have ne': "time (timer ?q') \<noteq> options_time ?q'"
    using ne by (simp add: time_timer_ops popup_fields_pause)
  have c1: "this_time (setTime (options_time p) p) = objs p (options_time p)"
    by (rule this_time_setTime)
  have c2: "objs (handleTimeInput fl sh sm ss ?q) (options_time p)
        = \<lparr>hours = Math_round (fl (of_int MAX_HOURS * sh)), minutes = Math_round (fl (60 * sm)),
           seconds = Math_round (fl (60 * ss))\<rparr>"
    by (simp add: handleTimeInput_objs startTimer_refs)
  have t: "timer (handleTimeInput fl sh sm ss ?q) = timer ?q"
    by (rule handleTimeInput_timer)
  have o: "this_time (handleTimeInput fl sh sm ss ?q) = this_time ?q"
    by (rule handleTimeInput_this_time [OF ne])
  have t': "timer (handleTimeInput fl sh sm ss ?q') = timer ?q'"
    by (rule handleTimeInput_timer)
  have o': "this_time (handleTimeInput fl sh sm ss ?q') = this_time ?q'"
    by (rule handleTimeInput_this_time [OF ne'])
  have rt: "timer (resume n1 (handleTimeInput fl sh sm ss ?q')) = timer (resume n1 ?q')"
    by (simp add: timer_resume t')
  have ro: "this_time (resume n1 (handleTimeInput fl sh sm ss ?q')) = this_time (resume n1 ?q')"
    by (simp add: this_time_resume o')
  show ?thesis
    using ne c1 c2 t o t' o' update_same_timer [OF t o] update_same_timer [OF rt ro]
    by simp
qed

theorem setTime_snapshot_witness:
  "options_time (TimerPopup_init boot) < fresh (TimerPopup_init boot)
   \<and> this_time (startTimer 0 0 0 (TimerPopup_init boot))
       = \<lparr>hours = 0, minutes = 40, seconds = 0\<rparr>
   \<and> objs (handleTimeInput (\<lambda>x. x) (1 / 8) 0 (1 / 2) (startTimer 0 0 0 (TimerPopup_init boot)))
        (options_time (TimerPopup_init boot))
       = \<lparr>hours = 1, minutes = 0, seconds = 30\<rparr>
   \<and> this_time (handleTimeInput (\<lambda>x. x) (1 / 8) 0 (1 / 2) (startTimer 0 0 0 (TimerPopup_init boot)))
       = \<lparr>hours = 0, minutes = 40, seconds = 0\<rparr>
   \<and> finishTimestamp (timer (handleTimeInput (\<lambda>x. x) (1 / 8) 0 (1 / 2)
        (startTimer 0 0 0 (TimerPopup_init boot)))) = Some 2400000000"
proof -
  have h: "options_time (TimerPopup_init boot) < fresh (TimerPopup_init boot)"
    by code_simp
  have a: "this_time (startTimer 0 0 0 (TimerPopup_init boot))
       = \<lparr>hours = 0, minutes = 40, seconds = 0\<rparr>"
    by code_simp
  have b: "finishTimestamp (timer (startTimer 0 0 0 (TimerPopup_init boot))) = Some 2400000000"
    by code_simp
  have c: "Math_round (of_int MAX_HOURS * (1 / 8)) = 1" "Math_round (60 * 0) = 0"
    "Math_round (60 * (1 / 2)) = 30"
    by code_simp+
  from setTime_snapshot [OF h, where fl = "\<lambda>x. x" and sh = "1 / 8" and sm = 0
      and ss = "1 / 2" and now = 0 and now' = 0 and now'' = 0]
  show ?thesis
    using h a b c by simp
qed

text \<open>
  C8. The claim is that for every time of \<open>h\<close> hours, \<open>m\<close> minutes and \<open>s\<close> seconds,
  with \<open>h\<close> not negative and \<open>m\<close>, \<open>s\<close> from 0 to 59, a start and an immediate update
  leave a time within one refresh interval of the time set, its units being the quotients
  of the microseconds left, rounded down. That holds as long as the deadline has not
  passed (\<open>start_then_update_units\<close>), so for every time but zero. For the time zero,
  started at clock 0 with the update of \<^verbatim>\<open>start()\<close> at clock 0 as well, an update one
  microsecond later finds -1 microseconds left, and the time it leaves is -1 hours,
  -1 minutes, -1 seconds, which is 3661 seconds below zero. The quotients of -1, rounded
  down, with minutes and seconds taken modulo 60, are -1, 59 and 59.
\<close>

theorem zero_duration_update_negative_units:
  "this_time (setTime (options_time (handleTimeInput (\<lambda>x. x) 0 0 0 (TimerPopup_init boot)))
        (handleTimeInput (\<lambda>x. x) 0 0 0 (TimerPopup_init boot)))
     = \<lparr>hours = 0, minutes = 0, seconds = 0\<rparr>
   \<and> this_time (start 0 0 (setTime (options_time (handleTimeInput (\<lambda>x. x) 0 0 0 (TimerPopup_init boot)))
        (handleTimeInput (\<lambda>x. x) 0 0 0 (TimerPopup_init boot))))
     = \<lparr>hours = 0, minutes = 0, seconds = 0\<rparr>
   \<and> remaining (update 1 (start 0 0
        (setTime (options_time (handleTimeInput (\<lambda>x. x) 0 0 0 (TimerPopup_init boot)))
          (handleTimeInput (\<lambda>x. x) 0 0 0 (TimerPopup_init boot))))) = - 1
   \<and> state (timer (update 1 (start 0 0
        (setTime (options_time (handleTimeInput (\<lambda>x. x) 0 0 0 (TimerPopup_init boot)))
          (handleTimeInput (\<lambda>x. x) 0 0 0 (TimerPopup_init boot)))))) = STATE_STOP
   \<and> this_time (update 1 (start 0 0
        (setTime (options_time (handleTimeInput (\<lambda>x. x) 0 0 0 (TimerPopup_init boot)))
          (handleTimeInput (\<lambda>x. x) 0 0 0 (TimerPopup_init boot)))))
     = \<lparr>hours = - 1, minutes = - 1, seconds = - 1\<rparr>
   \<and> total_seconds (this_time (update 1 (start 0 0
        (setTime (options_time (handleTimeInput (\<lambda>x. x) 0 0 0 (TimerPopup_init boot)))
          (handleTimeInput (\<lambda>x. x) 0 0 0 (TimerPopup_init boot)))))) = - 3661
   \<and> (- 1) div HOUR_TO_MS = - 1
   \<and> (- 1) div MINUTE_TO_MS mod 60 = 59
   \<and> (- 1) div SECOND_TO_MS mod 60 = 59"
  by code_simp

end
